theory Spec2Isabelle
  imports Main "HOL-Library.AList" "HOL-Library.Multiset"
begin

section \<open>Shift DNA analysis (roster\_engine.py, load\_and\_analyze\_data)\<close>

text \<open>
  Python exceptions that the modelled code can raise are values of one datatype; a
  function that may raise returns \<open>py_error + 'a\<close> with \<open>Inl\<close> for the exception.
\<close>

datatype py_error = KeyError | IndexError | ValueError | IllegalMonthError

text \<open>
  A cell of the loaded table: text, a whole number, or a missing value (pandas reads a
  blank cell as NaN). Cell text is ASCII; \<open>py_str\<close> is Python's \<^verbatim>\<open>str()\<close> on these values.
\<close>

datatype cell = CStr string | CInt int | CNaN

definition digit_char :: "nat \<Rightarrow> char" where
  "digit_char n = char_of (48 + n)"

fun str_nat :: "nat \<Rightarrow> string" where
  "str_nat n = (if n < 10 then [digit_char n] else str_nat (n div 10) @ [digit_char (n mod 10)])"

declare str_nat.simps [simp del]

definition str_int :: "int \<Rightarrow> string" where
  "str_int i = (if i < 0 then CHR ''-'' # str_nat (nat (- i)) else str_nat (nat i))"

fun py_str :: "cell \<Rightarrow> string" where
  "py_str (CStr s) = s"
| "py_str (CInt i) = str_int i"
| "py_str CNaN = ''nan''"

text \<open>
  \<^verbatim>\<open>str.strip()\<close> removes leading and trailing whitespace, \<^verbatim>\<open>str.upper()\<close> maps the
  letters a to z to A to Z. On ASCII text the whitespace characters are the codes 9 to 13,
  28 to 31 and 32.
\<close>

definition is_space :: "char \<Rightarrow> bool" where
  "is_space c = (let n = (of_char c :: nat) in (9 \<le> n \<and> n \<le> 13) \<or> (28 \<le> n \<and> n \<le> 32))"

definition py_strip :: "string \<Rightarrow> string" where
  "py_strip s = rev (dropWhile is_space (rev (dropWhile is_space s)))"

definition upper_char :: "char \<Rightarrow> char" where
  "upper_char c = (let n = (of_char c :: nat) in if 97 \<le> n \<and> n \<le> 122 then char_of (n - 32) else c)"

definition py_upper :: "string \<Rightarrow> string" where
  "py_upper s = map upper_char s"

definition startswith :: "string \<Rightarrow> string \<Rightarrow> bool" where
  "startswith s p = (take (length p) s = p)"

datatype dna = Fixed_Day | Fixed_Night | Rotating

record emp_info =
  Name :: cell
  DNA :: dna
  Day_Count :: int
  Night_Count :: int
  Status :: cell
  Department :: cell

text \<open>
  The loaded DataFrame: its column labels and its rows, a row being the cells under the
  labels in order. \<open>row_get\<close> is \<^verbatim>\<open>row[col]\<close>, which raises KeyError on an unknown label.
\<close>

record table =
  columns :: "string list"
  rows :: "cell list list"

definition row_get :: "string list \<Rightarrow> cell list \<Rightarrow> string \<Rightarrow> py_error + cell" where
  "row_get cols r col = (case map_of (zip cols r) col of None \<Rightarrow> Inl KeyError | Some c \<Rightarrow> Inr c)"

definition metadata_cols :: "string list" where
  "metadata_cols = [''Employee ID'', ''User ID'', ''NAME'', ''Status'', ''Department'']"

definition date_cols_of :: "string list \<Rightarrow> string list" where
  "date_cols_of cols =
     filter (\<lambda>col. col \<notin> set metadata_cols \<and> \<not> startswith col ''Unnamed'' \<and> col \<noteq> ''Remarks'') cols"

text \<open>The normalised text of a history cell: \<^verbatim>\<open>str(row[col]).strip().upper()\<close>.\<close>

definition cell_val :: "cell \<Rightarrow> string" where
  "cell_val c = py_upper (py_strip (py_str c))"

text \<open>
  The inner loop over the date columns of one row, with the two counters as accumulator.
\<close>

fun count_shifts :: "string list \<Rightarrow> cell list \<Rightarrow> string list \<Rightarrow> int \<Rightarrow> int \<Rightarrow> py_error + (int \<times> int)" where
  "count_shifts cols r [] day_count night_count = Inr (day_count, night_count)"
| "count_shifts cols r (col # date_cols) day_count night_count =
     (case row_get cols r col of
        Inl err \<Rightarrow> Inl err
      | Inr c \<Rightarrow>
          (let val = cell_val c in
           if val = ''DAY'' then count_shifts cols r date_cols (day_count + 1) night_count
           else if val = ''NIGHT'' then count_shifts cols r date_cols day_count (night_count + 1)
           else count_shifts cols r date_cols day_count night_count))"

text \<open>The classification of the two counts (the if/elif/else under "Determine DNA").\<close>

definition determine_dna :: "int \<Rightarrow> int \<Rightarrow> dna" where
  "determine_dna day_count night_count =
     (if day_count > 0 \<and> night_count = 0 then Fixed_Day
      else if night_count > 0 \<and> day_count = 0 then Fixed_Night
      else Rotating)"

text \<open>One iteration of the loop over the rows: the key and the entry stored under it.\<close>

definition analyze_row :: "string list \<Rightarrow> string list \<Rightarrow> cell list \<Rightarrow> py_error + (cell \<times> emp_info)" where
  "analyze_row cols date_cols r =
     (case row_get cols r ''Employee ID'' of Inl err \<Rightarrow> Inl err | Inr emp_id \<Rightarrow>
     (case row_get cols r ''NAME'' of Inl err \<Rightarrow> Inl err | Inr name \<Rightarrow>
     (case count_shifts cols r date_cols 0 0 of Inl err \<Rightarrow> Inl err | Inr (day_count, night_count) \<Rightarrow>
     (case row_get cols r ''Status'' of Inl err \<Rightarrow> Inl err | Inr status \<Rightarrow>
     (case row_get cols r ''Department'' of Inl err \<Rightarrow> Inl err | Inr department \<Rightarrow>
        Inr (emp_id,
             \<lparr>Name = name, DNA = determine_dna day_count night_count,
              Day_Count = day_count, Night_Count = night_count,
              Status = status, Department = department\<rparr>))))))"

text \<open>
  The dictionary \<^verbatim>\<open>employee_dna\<close> is an association list in insertion order; storing under
  a key that is present replaces the entry in place, as a Python dict does.
\<close>

fun analyze_rows :: "string list \<Rightarrow> string list \<Rightarrow> cell list list \<Rightarrow> (cell \<times> emp_info) list
    \<Rightarrow> py_error + (cell \<times> emp_info) list" where
  "analyze_rows cols date_cols [] employee_dna = Inr employee_dna"
| "analyze_rows cols date_cols (r # rs) employee_dna =
     (case analyze_row cols date_cols r of
        Inl err \<Rightarrow> Inl err
      | Inr (emp_id, info) \<Rightarrow> analyze_rows cols date_cols rs (AList.update emp_id info employee_dna))"

text \<open>
  Reading the file is outside the program: the argument is what the reader produced, the
  text of its exception or the table. The function returns a pair in both cases.
\<close>

datatype load_result = Load_failed string | Loaded table "(cell \<times> emp_info) list"

definition load_and_analyze_data :: "string + table \<Rightarrow> py_error + load_result" where
  "load_and_analyze_data file_source =
     (case file_source of
        Inl e \<Rightarrow> Inr (Load_failed (''Error loading file: '' @ e))
      | Inr df \<Rightarrow>
          (case analyze_rows (columns df) (date_cols_of (columns df)) (rows df) [] of
             Inl err \<Rightarrow> Inl err
           | Inr employee_dna \<Rightarrow> Inr (Loaded df employee_dna)))"

text \<open>
  The normalised text of the history cell of a row under a date column, when the row has
  that column; used to state what the counters count.
\<close>

definition history_val :: "string list \<Rightarrow> cell list \<Rightarrow> string \<Rightarrow> string option" where
  "history_val cols r col = map_option cell_val (map_of (zip cols r) col)"

section \<open>The calendar (Python's calendar and datetime modules)\<close>

text \<open>
  \<^verbatim>\<open>calendar.monthrange(year, month)[1]\<close> and \<^verbatim>\<open>datetime.date(year, month, day).weekday()\<close>,
  written as the standard library computes them: the proleptic Gregorian ordinal of a date,
  and Monday as weekday 0. Python's \<^verbatim>\<open>//\<close> is floor division, as \<open>div\<close> on \<open>int\<close>.
\<close>

definition isleap :: "int \<Rightarrow> bool" where
  "isleap year = (year mod 4 = 0 \<and> (year mod 100 \<noteq> 0 \<or> year mod 400 = 0))"

definition mdays :: "int list" where
  "mdays = [0, 31, 28, 31, 30, 31, 30, 31, 31, 30, 31, 30, 31]"

definition days_in_month :: "int \<Rightarrow> int \<Rightarrow> int" where
  "days_in_month year month = mdays ! nat month + (if month = 2 \<and> isleap year then 1 else 0)"

definition days_before_year :: "int \<Rightarrow> int" where
  "days_before_year year = (let y = year - 1 in y * 365 + y div 4 - y div 100 + y div 400)"

definition days_before_month :: "int \<Rightarrow> int \<Rightarrow> int" where
  "days_before_month year month =
     sum_list (take (nat month) mdays) + (if month > 2 \<and> isleap year then 1 else 0)"

type_synonym date = "int \<times> int \<times> int"

definition toordinal :: "date \<Rightarrow> int" where
  "toordinal dt = (case dt of (year, month, day) \<Rightarrow>
     days_before_year year + days_before_month year month + day)"

definition weekday :: "date \<Rightarrow> int" where
  "weekday dt = (toordinal dt + 6) mod 7"

section \<open>The constraint model (the calls on ortools' CpModel)\<close>

text \<open>
  Every \<^verbatim>\<open>NewIntVar\<close> and \<^verbatim>\<open>NewBoolVar\<close> call of \<^verbatim>\<open>generate_roster\<close> creates a distinct
  variable. A variable is named here by the place that creates it and the loop indices
  of that place, following the name string the source gives it: \<open>Shift e d\<close> is
  \<^verbatim>\<open>roster[(e, d)]\<close>, and \<open>Has_day e w\<close> is the \<^verbatim>\<open>has_day\<close> of employee \<open>e\<close> in the week
  whose first day index is \<open>w\<close>.
\<close>

datatype var =
    Shift nat nat
  | Is_wo nat nat
  | Has_day nat nat
  | Has_night nat nat
  | Is_day nat nat
  | Is_night nat nat
  | Obj_is_d nat nat
  | Obj_is_n nat nat
  | Total_days nat
  | Total_nights nat
  | Total_work nat
  | Min_work
  | Max_work

datatype expr = Var var | Const int | Plus expr expr | Minus expr expr

datatype rel = EQ | NE | LE

text \<open>A literal is a Boolean variable \<open>b\<close> or its negation \<^verbatim>\<open>b.Not()\<close>.\<close>

datatype literal = Pos var | Neg var

text \<open>
  \<open>Linear l r u lits\<close> is \<^verbatim>\<open>model.Add(l r u)\<close>, followed by \<^verbatim>\<open>.OnlyEnforceIf(lit)\<close> for
  each literal of \<open>lits\<close>; \<open>Max_equality\<close> and \<open>Min_equality\<close> are \<^verbatim>\<open>AddMaxEquality\<close> and
  \<^verbatim>\<open>AddMinEquality\<close>.
\<close>

datatype ct =
    Linear expr rel expr "literal list"
  | Max_equality expr "expr list"
  | Min_equality expr "expr list"

record cp_model =
  variables :: "(var \<times> int \<times> int) list"
  constraints :: "ct list"
  objective :: "expr option"

text \<open>Python's \<^verbatim>\<open>sum\<close> over a list of expressions starts from the constant 0.\<close>

definition py_sum :: "expr list \<Rightarrow> expr" where
  "py_sum xs = foldl Plus (Const 0) xs"

text \<open>The meaning of the model under an assignment of integers to the variables.\<close>

fun eval :: "(var \<Rightarrow> int) \<Rightarrow> expr \<Rightarrow> int" where
  "eval v (Var x) = v x"
| "eval v (Const c) = c"
| "eval v (Plus a b) = eval v a + eval v b"
| "eval v (Minus a b) = eval v a - eval v b"

fun rel_holds :: "rel \<Rightarrow> int \<Rightarrow> int \<Rightarrow> bool" where
  "rel_holds EQ a b = (a = b)"
| "rel_holds NE a b = (a \<noteq> b)"
| "rel_holds LE a b = (a \<le> b)"

fun lit_true :: "(var \<Rightarrow> int) \<Rightarrow> literal \<Rightarrow> bool" where
  "lit_true v (Pos b) = (v b = 1)"
| "lit_true v (Neg b) = (v b = 0)"

text \<open>
  A constraint with enforcement literals binds only when all of them are true. The
  maximum or minimum of an empty list of expressions equals no target.
\<close>

fun holds :: "(var \<Rightarrow> int) \<Rightarrow> ct \<Rightarrow> bool" where
  "holds v (Linear l r u lits) = (list_all (lit_true v) lits \<longrightarrow> rel_holds r (eval v l) (eval v u))"
| "holds v (Max_equality t xs) = (xs \<noteq> [] \<and> eval v t = Max (set (map (eval v) xs)))"
| "holds v (Min_equality t xs) = (xs \<noteq> [] \<and> eval v t = Min (set (map (eval v) xs)))"

definition feasible :: "(var \<Rightarrow> int) \<Rightarrow> cp_model \<Rightarrow> bool" where
  "feasible v m =
     (list_all (\<lambda>(x, lo, hi). lo \<le> v x \<and> v x \<le> hi) (variables m)
      \<and> list_all (holds v) (constraints m))"

section \<open>Roster generation (roster\_engine.py, generate\_roster)\<close>

text \<open>
  The grouping of the day indices into weeks: a week is closed after each Saturday
  (weekday 5), and the days left over at the end form a last week.
\<close>

fun weeks_loop :: "(nat \<Rightarrow> int) \<Rightarrow> nat list \<Rightarrow> nat list list \<Rightarrow> nat list \<Rightarrow> nat list list \<times> nat list" where
  "weeks_loop wd [] weeks current_week = (weeks, current_week)"
| "weeks_loop wd (d # ds) weeks current_week =
     (if wd d = 5 then weeks_loop wd ds (weeks @ [current_week @ [d]]) []
      else weeks_loop wd ds weeks (current_week @ [d]))"

definition group_weeks :: "(nat \<Rightarrow> int) \<Rightarrow> nat list \<Rightarrow> nat list list" where
  "group_weeks wd days_indices =
     (case weeks_loop wd days_indices [] [] of
        (weeks, current_week) \<Rightarrow> if current_week \<noteq> [] then weeks @ [current_week] else weeks)"

definition num_days_of :: "int \<Rightarrow> int \<Rightarrow> nat" where
  "num_days_of year month = nat (days_in_month year month)"

definition dates_of :: "int \<Rightarrow> int \<Rightarrow> date list" where
  "dates_of year month = map (\<lambda>day. (year, month, day)) [1 .. int (num_days_of year month)]"

text \<open>
  The lookups \<^verbatim>\<open>employee_dna[employees[e]]\<close> for the keys of the dictionary, in key order.
\<close>

fun lookup_all :: "(cell \<times> emp_info) list \<Rightarrow> cell list \<Rightarrow> py_error + emp_info list" where
  "lookup_all employee_dna [] = Inr []"
| "lookup_all employee_dna (emp_id # ks) =
     (case map_of employee_dna emp_id of
        None \<Rightarrow> Inl KeyError
      | Some info \<Rightarrow>
          (case lookup_all employee_dna ks of
             Inl err \<Rightarrow> Inl err
           | Inr infos \<Rightarrow> Inr (info # infos)))"

text \<open>
  The model is the variables and constraints that the loops of \<^verbatim>\<open>generate_roster\<close> add,
  one definition per loop nest, in the order of the source. \<open>dnas ! e\<close> is the DNA of
  employee index \<open>e\<close>.
\<close>

definition roster_vars :: "nat list \<Rightarrow> nat list \<Rightarrow> (var \<times> int \<times> int) list" where
  "roster_vars emp_indices days_indices = [(Shift e d, 0, 2). e \<leftarrow> emp_indices, d \<leftarrow> days_indices]"

definition dna_constraints :: "dna list \<Rightarrow> nat list \<Rightarrow> nat list \<Rightarrow> ct list" where
  "dna_constraints dnas emp_indices days_indices =
     [c. e \<leftarrow> emp_indices, d \<leftarrow> days_indices,
         c \<leftarrow> (if dnas ! e = Fixed_Day then [Linear (Var (Shift e d)) NE (Const 2) []]
               else if dnas ! e = Fixed_Night then [Linear (Var (Shift e d)) NE (Const 1) []]
               else [])]"

definition weekly_off_vars :: "nat list list \<Rightarrow> nat list \<Rightarrow> (var \<times> int \<times> int) list" where
  "weekly_off_vars weeks emp_indices = [(Is_wo e d, 0, 1). week_days \<leftarrow> weeks, e \<leftarrow> emp_indices, d \<leftarrow> week_days]"

definition weekly_off_constraints :: "nat list list \<Rightarrow> nat list \<Rightarrow> ct list" where
  "weekly_off_constraints weeks emp_indices =
     [c. week_days \<leftarrow> weeks, e \<leftarrow> emp_indices,
         c \<leftarrow> [c'. d \<leftarrow> week_days,
                    c' \<leftarrow> [Linear (Var (Shift e d)) EQ (Const 0) [Pos (Is_wo e d)],
                           Linear (Var (Shift e d)) NE (Const 0) [Neg (Is_wo e d)]]]
              @ [if length week_days = 7
                 then Linear (py_sum (map (\<lambda>d. Var (Is_wo e d)) week_days)) EQ (Const 2) []
                 else Linear (py_sum (map (\<lambda>d. Var (Is_wo e d)) week_days)) LE (Const 2) []]]"

definition shift_lock_vars :: "nat list list \<Rightarrow> nat list \<Rightarrow> (var \<times> int \<times> int) list" where
  "shift_lock_vars weeks emp_indices =
     [x. week_days \<leftarrow> weeks, e \<leftarrow> emp_indices,
         x \<leftarrow> [(Has_day e (hd week_days), 0, 1), (Has_night e (hd week_days), 0, 1)]
              @ [y. d \<leftarrow> week_days, y \<leftarrow> [(Is_day e d, 0, 1), (Is_night e d, 0, 1)]]]"

definition shift_lock_constraints :: "nat list list \<Rightarrow> nat list \<Rightarrow> ct list" where
  "shift_lock_constraints weeks emp_indices =
     [c. week_days \<leftarrow> weeks, e \<leftarrow> emp_indices,
         c \<leftarrow> [c'. d \<leftarrow> week_days,
                    c' \<leftarrow> [Linear (Var (Shift e d)) EQ (Const 1) [Pos (Is_day e d)],
                           Linear (Var (Shift e d)) NE (Const 1) [Neg (Is_day e d)],
                           Linear (Var (Shift e d)) EQ (Const 2) [Pos (Is_night e d)],
                           Linear (Var (Shift e d)) NE (Const 2) [Neg (Is_night e d)]]]
              @ [Max_equality (Var (Has_day e (hd week_days))) (map (\<lambda>d. Var (Is_day e d)) week_days),
                 Max_equality (Var (Has_night e (hd week_days))) (map (\<lambda>d. Var (Is_night e d)) week_days),
                 Linear (Plus (Var (Has_day e (hd week_days))) (Var (Has_night e (hd week_days)))) LE (Const 1) []]]"

definition totals_vars :: "nat list \<Rightarrow> nat list \<Rightarrow> (var \<times> int \<times> int) list" where
  "totals_vars emp_indices days_indices =
     [(Total_days e, 0, int (length days_indices)). e \<leftarrow> emp_indices]
     @ [(Total_nights e, 0, int (length days_indices)). e \<leftarrow> emp_indices]
     @ [x. e \<leftarrow> emp_indices, d \<leftarrow> days_indices, x \<leftarrow> [(Obj_is_d e d, 0, 1), (Obj_is_n e d, 0, 1)]]"

definition totals_constraints :: "nat list \<Rightarrow> nat list \<Rightarrow> ct list" where
  "totals_constraints emp_indices days_indices =
     [c. e \<leftarrow> emp_indices,
         c \<leftarrow> [c'. d \<leftarrow> days_indices,
                    c' \<leftarrow> [Linear (Var (Shift e d)) EQ (Const 1) [Pos (Obj_is_d e d)],
                           Linear (Var (Shift e d)) NE (Const 1) [Neg (Obj_is_d e d)],
                           Linear (Var (Shift e d)) EQ (Const 2) [Pos (Obj_is_n e d)],
                           Linear (Var (Shift e d)) NE (Const 2) [Neg (Obj_is_n e d)]]]
              @ [Linear (Var (Total_days e)) EQ (py_sum (map (\<lambda>d. Var (Obj_is_d e d)) days_indices)) [],
                 Linear (Var (Total_nights e)) EQ (py_sum (map (\<lambda>d. Var (Obj_is_n e d)) days_indices)) []]]"

definition work_vars :: "nat list \<Rightarrow> nat list \<Rightarrow> (var \<times> int \<times> int) list" where
  "work_vars emp_indices days_indices =
     [(Total_work e, 0, int (length days_indices)). e \<leftarrow> emp_indices]
     @ [(Min_work, 0, int (length days_indices)), (Max_work, 0, int (length days_indices))]"

definition work_constraints :: "nat list \<Rightarrow> ct list" where
  "work_constraints emp_indices =
     [Linear (Var (Total_work e)) EQ (Plus (Var (Total_days e)) (Var (Total_nights e))) []. e \<leftarrow> emp_indices]
     @ [Min_equality (Var Min_work) (map (\<lambda>e. Var (Total_work e)) emp_indices),
        Max_equality (Var Max_work) (map (\<lambda>e. Var (Total_work e)) emp_indices)]"

definition month_weeks :: "date list \<Rightarrow> nat list list" where
  "month_weeks dates = group_weeks (\<lambda>d. weekday (dates ! d)) [0 ..< length dates]"

definition build_model :: "dna list \<Rightarrow> date list \<Rightarrow> cp_model" where
  "build_model dnas dates =
     (let days_indices = [0 ..< length dates];
          emp_indices = [0 ..< length dnas];
          weeks = month_weeks dates
      in \<lparr>variables =
            roster_vars emp_indices days_indices
            @ weekly_off_vars weeks emp_indices
            @ shift_lock_vars weeks emp_indices
            @ totals_vars emp_indices days_indices
            @ work_vars emp_indices days_indices,
          constraints =
            dna_constraints dnas emp_indices days_indices
            @ weekly_off_constraints weeks emp_indices
            @ shift_lock_constraints weeks emp_indices
            @ totals_constraints emp_indices days_indices
            @ work_constraints emp_indices,
          objective = Some (Minus (Var Max_work) (Var Min_work))\<rparr>)"

text \<open>
  The solver is ortools' CP-SAT, outside the program: a function from the model to a
  status and the values it assigns. A sound solver reports OPTIMAL or FEASIBLE only with
  values that satisfy the model.
\<close>

datatype status = UNKNOWN | MODEL_INVALID | FEASIBLE | INFEASIBLE | OPTIMAL

type_synonym solver = "cp_model \<Rightarrow> status \<times> (var \<Rightarrow> int)"

definition solver_sound :: "solver \<Rightarrow> cp_model \<Rightarrow> bool" where
  "solver_sound solve m =
     (case solve m of (st, v) \<Rightarrow> (st = OPTIMAL \<or> st = FEASIBLE) \<longrightarrow> feasible v m)"

datatype shift = WO | Day | Night

definition shift_map :: "int \<Rightarrow> py_error + shift" where
  "shift_map s_val =
     (if s_val = 0 then Inr WO else if s_val = 1 then Inr Day else if s_val = 2 then Inr Night
      else Inl KeyError)"

text \<open>
  A row of the result: the descriptive columns, one cell per date (keyed by the date),
  and the two totals.
\<close>

record roster_row =
  Employee_ID :: cell
  Row_Name :: cell
  Dept :: cell
  Row_Status :: cell
  Shift_DNA :: dna
  Cells :: "(date \<times> shift) list"
  Total_Work_Hours :: int
  Total_Shifts :: int

fun build_cells :: "(var \<Rightarrow> int) \<Rightarrow> date list \<Rightarrow> nat \<Rightarrow> nat list \<Rightarrow> py_error + (date \<times> shift) list" where
  "build_cells v dates e [] = Inr []"
| "build_cells v dates e (d # ds) =
     (case shift_map (v (Shift e d)) of
        Inl err \<Rightarrow> Inl err
      | Inr s \<Rightarrow>
          (case build_cells v dates e ds of
             Inl err \<Rightarrow> Inl err
           | Inr cs \<Rightarrow> Inr ((dates ! d, s) # cs)))"

definition build_row :: "(var \<Rightarrow> int) \<Rightarrow> cell list \<Rightarrow> emp_info list \<Rightarrow> date list \<Rightarrow> nat \<Rightarrow> py_error + roster_row" where
  "build_row v employees infos dates e =
     (case build_cells v dates e [0 ..< length dates] of
        Inl err \<Rightarrow> Inl err
      | Inr cs \<Rightarrow>
          (let t_d = v (Total_days e); t_n = v (Total_nights e)
           in Inr \<lparr>Employee_ID = employees ! e,
                   Row_Name = Name (infos ! e),
                   Dept = Department (infos ! e),
                   Row_Status = Status (infos ! e),
                   Shift_DNA = DNA (infos ! e),
                   Cells = cs,
                   Total_Work_Hours = (t_d + t_n) * 9,
                   Total_Shifts = t_d + t_n\<rparr>))"

fun build_rows :: "(var \<Rightarrow> int) \<Rightarrow> cell list \<Rightarrow> emp_info list \<Rightarrow> date list \<Rightarrow> nat list \<Rightarrow> py_error + roster_row list" where
  "build_rows v employees infos dates [] = Inr []"
| "build_rows v employees infos dates (e # es) =
     (case build_row v employees infos dates e of
        Inl err \<Rightarrow> Inl err
      | Inr row \<Rightarrow>
          (case build_rows v employees infos dates es of
             Inl err \<Rightarrow> Inl err
           | Inr data \<Rightarrow> Inr (row # data)))"

text \<open>
  \<^verbatim>\<open>generate_roster\<close> returns the pair (result, None) or (None, message).
  \<^verbatim>\<open>calendar.monthrange\<close> raises on a month outside 1 to 12 and \<^verbatim>\<open>datetime.date\<close> on a
  year outside 1 to 9999.
\<close>

definition generate_roster :: "solver \<Rightarrow> (cell \<times> emp_info) list \<Rightarrow> int \<Rightarrow> int
    \<Rightarrow> py_error + (roster_row list option \<times> string option)" where
  "generate_roster solve employee_dna year month =
     (if \<not> (1 \<le> month \<and> month \<le> 12) then Inl IllegalMonthError
      else if \<not> (1 \<le> year \<and> year \<le> 9999) then Inl ValueError
      else
        (let dates = dates_of year month;
             employees = map fst employee_dna
         in case lookup_all employee_dna employees of
              Inl err \<Rightarrow> Inl err
            | Inr infos \<Rightarrow>
                (case solve (build_model (map DNA infos) dates) of
                   (st, v) \<Rightarrow>
                     if st = OPTIMAL \<or> st = FEASIBLE then
                       (case build_rows v employees infos dates [0 ..< length employees] of
                          Inl err \<Rightarrow> Inl err
                        | Inr data \<Rightarrow> Inr (Some data, None))
                     else Inr (None, Some ''No feasible roster found. Constraints might be too strict.''))))"

section \<open>The replacement finder (app.py, the Find Replacement handler)\<close>

text \<open>
  \<^verbatim>\<open>roster_df[roster_df[selected_date] ...]\<close>: the rows whose cell under the selected date
  satisfies a test; an unknown column label raises KeyError.
\<close>

definition row_date :: "roster_row \<Rightarrow> date \<Rightarrow> py_error + shift" where
  "row_date r selected_date =
     (case map_of (Cells r) selected_date of None \<Rightarrow> Inl KeyError | Some s \<Rightarrow> Inr s)"

fun select_rows :: "(shift \<Rightarrow> bool) \<Rightarrow> roster_row list \<Rightarrow> date \<Rightarrow> py_error + roster_row list" where
  "select_rows P [] selected_date = Inr []"
| "select_rows P (r # rs) selected_date =
     (case row_date r selected_date of
        Inl err \<Rightarrow> Inl err
      | Inr s \<Rightarrow>
          (case select_rows P rs selected_date of
             Inl err \<Rightarrow> Inl err
           | Inr sel \<Rightarrow> Inr (if P s then r # sel else sel)))"

text \<open>\<^verbatim>\<open>Series.unique()\<close> keeps the first occurrence of each value, in order.\<close>

definition unique :: "'a list \<Rightarrow> 'a list" where
  "unique xs = rev (remdups (rev xs))"

text \<open>
  The names offered by the "Absent Employee" select box: the employees working (Day or
  Night) on the selected date.
\<close>

definition absent_options :: "roster_row list \<Rightarrow> date \<Rightarrow> py_error + cell list" where
  "absent_options roster_df selected_date =
     (case select_rows (\<lambda>s. s = Day \<or> s = Night) roster_df selected_date of
        Inl err \<Rightarrow> Inl err
      | Inr working_on_date \<Rightarrow> Inr (unique (map Row_Name working_on_date)))"

text \<open>
  \<^verbatim>\<open>candidates.sort_values(by='Total Shifts', ascending=True)\<close>. pandas sorts with its
  default kind (quicksort), which promises no order among rows of equal key; on the short
  arrays of a roster numpy's implementation of it is an insertion sort, which keeps rows of
  equal key in their order. The model is that insertion sort.
\<close>

definition sort_values_total_shifts :: "roster_row list \<Rightarrow> roster_row list" where
  "sort_values_total_shifts candidates = sort_key Total_Shifts candidates"

text \<open>
  \<^verbatim>\<open>roster_df['Name'] == selected_emp_name\<close> compares cell by cell, and a missing value
  (NaN) equals nothing, itself included: no row matches a missing name.
\<close>

fun py_eq :: "cell \<Rightarrow> cell \<Rightarrow> bool" where
  "py_eq CNaN b = False"
| "py_eq a CNaN = False"
| "py_eq a b = (a = b)"

text \<open>
  The handler up to the sorted candidates: the shift read for the absent employee (the
  first row bearing the selected name; \<^verbatim>\<open>.iloc[0]\<close> raises IndexError when there is none)
  and the ranked candidates.
\<close>

definition find_candidates :: "roster_row list \<Rightarrow> date \<Rightarrow> cell \<Rightarrow> py_error + (shift \<times> roster_row list)" where
  "find_candidates roster_df selected_date selected_emp_name =
     (case filter (\<lambda>r. py_eq (Row_Name r) selected_emp_name) roster_df of
        [] \<Rightarrow> Inl IndexError
      | absent_emp_row # _ \<Rightarrow>
          (case row_date absent_emp_row selected_date of
             Inl err \<Rightarrow> Inl err
           | Inr absent_shift \<Rightarrow>
               (case select_rows (\<lambda>s. s = WO) roster_df selected_date of
                  Inl err \<Rightarrow> Inl err
                | Inr candidates \<Rightarrow>
                    Inr (absent_shift,
                         sort_values_total_shifts
                           (if absent_shift = Night then filter (\<lambda>c. Shift_DNA c \<noteq> Fixed_Day) candidates
                            else if absent_shift = Day then filter (\<lambda>c. Shift_DNA c \<noteq> Fixed_Night) candidates
                            else candidates)))))"

text \<open>What the handler shows: the best fit with the top five, or the "not found" error.\<close>

datatype replacement = Best_fit roster_row "roster_row list" | No_suitable_replacement

definition find_replacement :: "roster_row list \<Rightarrow> date \<Rightarrow> cell \<Rightarrow> py_error + replacement" where
  "find_replacement roster_df selected_date selected_emp_name =
     (case find_candidates roster_df selected_date selected_emp_name of
        Inl err \<Rightarrow> Inl err
      | Inr (absent_shift, candidates) \<Rightarrow>
          (case candidates of
             [] \<Rightarrow> Inr No_suitable_replacement
           | best_fit # _ \<Rightarrow> Inr (Best_fit best_fit (take 5 candidates))))"

section \<open>Notions used to state the properties\<close>

text \<open>
  The shift that \<open>shift_map\<close> gives for a value in range, the state of a row on a day
  index, the number of rest days of a row among the days of a week, the non-rest states a
  row uses in a week, and the number of worked days of an employee under an assignment
  and in a row.
\<close>

definition shift_of :: "int \<Rightarrow> shift" where
  "shift_of x = (if x = 0 then WO else if x = 1 then Day else Night)"

definition state_at :: "roster_row \<Rightarrow> nat \<Rightarrow> shift" where
  "state_at row d = snd (Cells row ! d)"

definition rest_count :: "roster_row \<Rightarrow> nat list \<Rightarrow> nat" where
  "rest_count row week_days = length (filter (\<lambda>d. state_at row d = WO) week_days)"

definition work_states :: "roster_row \<Rightarrow> nat list \<Rightarrow> shift set" where
  "work_states row week_days = state_at row ` set week_days - {WO}"

definition total_work :: "(var \<Rightarrow> int) \<Rightarrow> nat \<Rightarrow> nat \<Rightarrow> int" where
  "total_work v num_days e = int (length (filter (\<lambda>d. v (Shift e d) \<noteq> 0) [0 ..< num_days]))"

definition worked_days :: "roster_row \<Rightarrow> int" where
  "worked_days row = int (length (filter (\<lambda>c. snd c \<noteq> WO) (Cells row)))"

text \<open>
  The order of employee identifiers (whole numbers by value; identifiers of other kinds are
  not compared), a ranking by Total Shifts with ties in the order of the identifiers, and
  the compatibility of a candidate with the absent shift.
\<close>

fun id_le :: "cell \<Rightarrow> cell \<Rightarrow> bool" where
  "id_le (CInt i) (CInt j) = (i \<le> j)"
| "id_le a b = True"

definition ranked_by_total_then_id :: "roster_row list \<Rightarrow> bool" where
  "ranked_by_total_then_id cs =
     sorted_wrt (\<lambda>a b. Total_Shifts a < Total_Shifts b
                     \<or> (Total_Shifts a = Total_Shifts b \<and> id_le (Employee_ID a) (Employee_ID b))) cs"

definition compatible :: "shift \<Rightarrow> roster_row \<Rightarrow> bool" where
  "compatible absent_shift c =
     (if absent_shift = Night then Shift_DNA c \<noteq> Fixed_Day
      else if absent_shift = Day then Shift_DNA c \<noteq> Fixed_Night
      else True)"

section \<open>A sample month: March 2026 with four employees\<close>

definition example_info :: "string \<Rightarrow> dna \<Rightarrow> int \<Rightarrow> int \<Rightarrow> emp_info" where
  "example_info n a dc nc =
     \<lparr>Name = CStr n, DNA = a, Day_Count = dc, Night_Count = nc,
      Status = CStr ''Active'', Department = CStr ''Inbound''\<rparr>"

definition example_dna :: "(cell \<times> emp_info) list" where
  "example_dna =
     [(CInt 104, example_info ''Asha'' Fixed_Day 20 0),
      (CInt 103, example_info ''Ravi'' Rotating 9 11),
      (CInt 102, example_info ''Meena'' Fixed_Night 0 21),
      (CInt 101, example_info ''Kiran'' Rotating 0 0)]"

text \<open>The same employees, the fourth bearing the name of the first.\<close>

definition example_dna_namesake :: "(cell \<times> emp_info) list" where
  "example_dna_namesake =
     [(CInt 104, example_info ''Asha'' Fixed_Day 20 0),
      (CInt 103, example_info ''Ravi'' Rotating 9 11),
      (CInt 102, example_info ''Meena'' Fixed_Night 0 21),
      (CInt 101, example_info ''Asha'' Rotating 0 0)]"

definition example_shift :: "nat \<Rightarrow> nat \<Rightarrow> int" where
  "example_shift e d =
     (if e = 0 then (if d mod 7 = 1 \<or> d mod 7 = 2 then 0 else 1)
      else if d mod 7 < 2 then 0
      else if e = 1 then (if even (d div 7) then 1 else 2)
      else if e = 2 then 2
      else 1)"

fun example_val :: "var \<Rightarrow> int" where
  "example_val (Shift e d) = example_shift e d"
| "example_val (Is_wo e d) = (if example_shift e d = 0 then 1 else 0)"
| "example_val (Is_day e d) = (if example_shift e d = 1 then 1 else 0)"
| "example_val (Is_night e d) = (if example_shift e d = 2 then 1 else 0)"
| "example_val (Obj_is_d e d) = (if example_shift e d = 1 then 1 else 0)"
| "example_val (Obj_is_n e d) = (if example_shift e d = 2 then 1 else 0)"
| "example_val (Has_day e w) = (if e = 0 \<or> e = 3 then 1 else if e = 1 \<and> even (w div 7) then 1 else 0)"
| "example_val (Has_night e w) = (if e = 2 then 1 else if e = 1 \<and> odd (w div 7) then 1 else 0)"
| "example_val (Total_days e) = (if e = 0 then 21 else if e = 1 then 11 else if e = 2 then 0 else 21)"
| "example_val (Total_nights e) = (if e = 1 then 10 else if e = 2 then 21 else 0)"
| "example_val (Total_work e) = 21"
| "example_val Min_work = 21"
| "example_val Max_work = 21"

text \<open>A solver that proposes this one assignment and checks it against the model.\<close>

definition example_solver :: solver where
  "example_solver m = (if feasible example_val m then (FEASIBLE, example_val) else (INFEASIBLE, example_val))"

definition example_dnas :: "dna list" where
  "example_dnas = [Fixed_Day, Rotating, Fixed_Night, Rotating]"

definition example_weeks :: "nat list list" where
  "example_weeks =
     [[0, 1, 2, 3, 4, 5, 6], [7, 8, 9, 10, 11, 12, 13], [14, 15, 16, 17, 18, 19, 20],
      [21, 22, 23, 24, 25, 26, 27], [28, 29, 30]]"

definition example_row :: "(cell \<times> emp_info) list \<Rightarrow> nat \<Rightarrow> roster_row" where
  "example_row employee_dna e =
     \<lparr>Employee_ID = fst (employee_dna ! e),
      Row_Name = Name (snd (employee_dna ! e)),
      Dept = CStr ''Inbound'',
      Row_Status = CStr ''Active'',
      Shift_DNA = DNA (snd (employee_dna ! e)),
      Cells = map (\<lambda>d. ((2026, 3, int d + 1), shift_of (example_shift e d))) [0 ..< 31],
      Total_Work_Hours = 189,
      Total_Shifts = 21\<rparr>"

definition example_roster :: "roster_row list" where
  "example_roster = map (example_row example_dna) [0 ..< 4]"

definition example_roster_namesake :: "roster_row list" where
  "example_roster_namesake = map (example_row example_dna_namesake) [0 ..< 4]"

text \<open>A loaded table with a history of three days, for the analysis.\<close>

definition example_df :: table where
  "example_df =
     \<lparr>columns = [''Employee ID'', ''User ID'', ''NAME'', ''Status'', ''Department'',
                 ''2026-02-01'', ''2026-02-02'', ''2026-02-03'', ''Remarks'', ''Unnamed: 9''],
      rows = [[CInt 104, CStr ''u104'', CStr ''Asha'', CStr ''Active'', CStr ''Inbound'',
               CStr '' day'', CStr ''Day '', CStr ''WO'', CStr ''DAY'', CNaN],
              [CInt 101, CStr ''u101'', CStr ''Kiran'', CStr ''Active'', CStr ''Inbound'',
               CStr ''WO'', CNaN, CInt 7, CStr ''night'', CNaN]]\<rparr>"

text \<open>The dictionary that the analysis returns for the sample table.\<close>

definition example_employee_dna :: "(cell \<times> emp_info) list" where
  "example_employee_dna =
     [(CInt 104, \<lparr>Name = CStr ''Asha'', DNA = Fixed_Day, Day_Count = 2, Night_Count = 0,
                  Status = CStr ''Active'', Department = CStr ''Inbound''\<rparr>),
      (CInt 101, \<lparr>Name = CStr ''Kiran'', DNA = Rotating, Day_Count = 0, Night_Count = 0,
                  Status = CStr ''Active'', Department = CStr ''Inbound''\<rparr>)]"

section \<open>The affinity classifier\<close>

lemma determine_dna_cases:
  "determine_dna d n = Fixed_Day \<or> determine_dna d n = Fixed_Night \<or> determine_dna d n = Rotating"
  by (simp add: determine_dna_def)

text \<open>
  Claim C3. The classifier is a total function of the two counts: it returns Fixed\_Day
  exactly when the day count is positive and the night count is zero, Fixed\_Night exactly
  when the night count is positive and the day count is zero, and Rotating exactly in the
  remaining cases, which for non-negative counts are both zero or both positive. Being a
  HOL function it has a value on every pair and no effect.
\<close>

theorem determine_dna_spec:
  "(determine_dna day_count night_count = Fixed_Day) = (day_count > 0 \<and> night_count = 0)
   \<and> (determine_dna day_count night_count = Fixed_Night) = (night_count > 0 \<and> day_count = 0)
   \<and> (determine_dna day_count night_count = Rotating)
       = (\<not> (day_count > 0 \<and> night_count = 0) \<and> \<not> (night_count > 0 \<and> day_count = 0))
   \<and> ((0 \<le> day_count \<and> 0 \<le> night_count \<and> determine_dna day_count night_count = Rotating)
       = ((day_count = 0 \<and> night_count = 0) \<or> (day_count > 0 \<and> night_count > 0)))"
  by (auto simp: determine_dna_def)

section \<open>Semantics of the constraint model\<close>

lemma eval_foldl_Plus: "eval v (foldl Plus a xs) = eval v a + sum_list (map (eval v) xs)"
  by (induction xs arbitrary: a) simp_all

lemma eval_py_sum: "eval v (py_sum xs) = sum_list (map (eval v) xs)"
  by (simp add: py_sum_def eval_foldl_Plus)

lemma sum_list_indicator:
  "sum_list (map (\<lambda>d. if P d then 1 else 0) xs) = int (length (filter P xs))"
  by (induction xs) simp_all

lemma feasible_constraint: "feasible v m \<Longrightarrow> c \<in> set (constraints m) \<Longrightarrow> holds v c"
  by (simp add: feasible_def list_all_iff)

lemma feasible_bounds: "feasible v m \<Longrightarrow> (x, lo, hi) \<in> set (variables m) \<Longrightarrow> lo \<le> v x \<and> v x \<le> hi"
  by (auto simp: feasible_def list_all_iff)

text \<open>A Boolean variable tied to \<open>x = k\<close> in both directions is the indicator of \<open>x = k\<close>.\<close>

lemma reified_indicator:
  assumes "0 \<le> v b" "v b \<le> 1"
    and "holds v (Linear (Var x) EQ (Const k) [Pos b])"
    and "holds v (Linear (Var x) NE (Const k) [Neg b])"
  shows "v b = (if v x = k then 1 else 0)"
proof -
  from assms(1,2) have "v b = 0 \<or> v b = 1" by linarith
  with assms(3,4) show ?thesis by auto
qed

subsection \<open>The weeks\<close>

lemma weeks_loop_concat:
  "weeks_loop wd ds weeks cur = (weeks', cur') \<Longrightarrow> concat weeks' @ cur' = concat weeks @ cur @ ds"
  by (induction ds arbitrary: weeks cur) (auto split: if_splits)

lemma weeks_loop_nonempty:
  "weeks_loop wd ds weeks cur = (weeks', cur') \<Longrightarrow> [] \<notin> set weeks \<Longrightarrow> [] \<notin> set weeks'"
  by (induction ds arbitrary: weeks cur) (auto split: if_splits)

lemma concat_group_weeks: "concat (group_weeks wd ds) = ds"
proof -
  obtain weeks cur where w: "weeks_loop wd ds [] [] = (weeks, cur)"
    by (cases "weeks_loop wd ds [] []")
  from weeks_loop_concat [OF w] w show ?thesis
    by (auto simp: group_weeks_def)
qed

lemma group_weeks_nonempty: "[] \<notin> set (group_weeks wd ds)"
proof -
  obtain weeks cur where w: "weeks_loop wd ds [] [] = (weeks, cur)"
    by (cases "weeks_loop wd ds [] []")
  from weeks_loop_nonempty [OF w] w show ?thesis
    by (auto simp: group_weeks_def)
qed

lemma month_weeks_days:
  assumes "week_days \<in> set (month_weeks dates)" "d \<in> set week_days"
  shows "d < length dates"
proof -
  from assms have "d \<in> set (concat (month_weeks dates))" by auto
  then show ?thesis by (simp add: month_weeks_def concat_group_weeks)
qed

lemma month_weeks_nonempty: "week_days \<in> set (month_weeks dates) \<Longrightarrow> week_days \<noteq> []"
  using group_weeks_nonempty [of "\<lambda>d. weekday (dates ! d)" "[0 ..< length dates]"]
  by (auto simp: month_weeks_def)

text \<open>
  Within a week no day before the last is a Saturday, and every week but the last ends on
  a Saturday.
\<close>

lemma weeks_loop_saturdays:
  "weeks_loop wd ds weeks cur = (weeks', cur') \<Longrightarrow>
     \<forall>w \<in> set weeks. wd (last w) = 5 \<and> (\<forall>d \<in> set (butlast w). wd d \<noteq> 5) \<Longrightarrow>
     \<forall>d \<in> set cur. wd d \<noteq> 5 \<Longrightarrow>
     (\<forall>w \<in> set weeks'. wd (last w) = 5 \<and> (\<forall>d \<in> set (butlast w). wd d \<noteq> 5))
     \<and> (\<forall>d \<in> set cur'. wd d \<noteq> 5)"
proof (induction ds arbitrary: weeks cur)
  case Nil
  then show ?case by simp
next
  case (Cons d ds)
  show ?case
  proof (cases "wd d = 5")
    case True
    with Cons.prems(1) have l: "weeks_loop wd ds (weeks @ [cur @ [d]]) [] = (weeks', cur')" by simp
    have "\<forall>w \<in> set (weeks @ [cur @ [d]]). wd (last w) = 5 \<and> (\<forall>d \<in> set (butlast w). wd d \<noteq> 5)"
      using Cons.prems(2,3) True by (simp add: butlast_append)
    from Cons.IH [OF l this] show ?thesis by simp
  next
    case False
    with Cons.prems(1) have l: "weeks_loop wd ds weeks (cur @ [d]) = (weeks', cur')" by simp
    have "\<forall>x \<in> set (cur @ [d]). wd x \<noteq> 5" using Cons.prems(3) False by simp
    from Cons.IH [OF l Cons.prems(2) this] show ?thesis .
  qed
qed

lemma group_weeks_saturdays:
  shows "\<forall>w \<in> set (group_weeks wd ds). \<forall>d \<in> set (butlast w). wd d \<noteq> 5"
    and "\<forall>w \<in> set (butlast (group_weeks wd ds)). wd (last w) = 5"
proof -
  obtain weeks cur where w: "weeks_loop wd ds [] [] = (weeks, cur)"
    by (cases "weeks_loop wd ds [] []")
  from weeks_loop_saturdays [OF w]
  have a: "\<forall>w \<in> set weeks. wd (last w) = 5 \<and> (\<forall>d \<in> set (butlast w). wd d \<noteq> 5)"
    and b: "\<forall>d \<in> set cur. wd d \<noteq> 5" by simp_all
  have g: "group_weeks wd ds = (if cur \<noteq> [] then weeks @ [cur] else weeks)"
    using w by (simp add: group_weeks_def)
  from b have b': "\<forall>d \<in> set (butlast cur). wd d \<noteq> 5" by (meson in_set_butlastD)
  show "\<forall>w \<in> set (group_weeks wd ds). \<forall>d \<in> set (butlast w). wd d \<noteq> 5"
    using a b' by (simp add: g)
  show "\<forall>w \<in> set (butlast (group_weeks wd ds)). wd (last w) = 5"
    using a by (auto simp: g dest: in_set_butlastD)
qed

text \<open>The weeks cut the run of days into consecutive segments.\<close>

lemma concat_upt_segment:
  "concat ws = [a ..< b] \<Longrightarrow> w \<in> set ws \<Longrightarrow> \<exists>i. w = [i ..< i + length w]"
proof (induction ws arbitrary: a)
  case Nil
  then show ?case by simp
next
  case (Cons x ws)
  from Cons.prems(1) have x: "x = take (length x) [a ..< b]" and r: "concat ws = drop (length x) [a ..< b]"
    by (metis append_eq_conv_conj concat.simps(2))+
  from Cons.prems(1) have "length x \<le> b - a"
    by (metis concat.simps(2) length_append length_upt le_add1)
  have x': "x = [a ..< a + length x]"
  proof (cases "x = []")
    case True
    then show ?thesis by simp
  next
    case False
    with \<open>length x \<le> b - a\<close> have "a + length x \<le> b" by (cases x) simp_all
    from take_upt [OF this] x show ?thesis by simp
  qed
  from r have r': "concat ws = [a + length x ..< b]" by (simp add: drop_upt)
  show ?case
  proof (cases "w = x")
    case True
    with x' show ?thesis by blast
  next
    case False
    with Cons.prems(2) have "w \<in> set ws" by simp
    from Cons.IH [OF r' this] show ?thesis .
  qed
qed

lemma weekday_succ:
  "weekday (year, month, day + 1) = (weekday (year, month, day) + 1) mod 7"
  by (simp add: weekday_def toordinal_def mod_simps algebra_simps)

lemma weekday_range: "0 \<le> weekday dt \<and> weekday dt < 7"
  by (simp add: weekday_def)

lemma dates_of_nth:
  "d < length (dates_of year month) \<Longrightarrow> dates_of year month ! d = (year, month, int d + 1)"
  by (simp add: dates_of_def)

lemma weekday_shift:
  "weekday (year, month, day + int t) = (weekday (year, month, day) + int t) mod 7"
  by (simp add: weekday_def toordinal_def mod_simps algebra_simps)

lemma month_weeks_length:
  assumes "w \<in> set (month_weeks (dates_of year month))"
  shows "length w \<le> 7"
proof (rule ccontr)
  let ?dates = "dates_of year month"
  let ?wd = "\<lambda>d. weekday (?dates ! d)"
  assume "\<not> length w \<le> 7"
  then have len: "8 \<le> length w" by simp
  have "concat (month_weeks ?dates) = [0 ..< length ?dates]"
    by (simp add: month_weeks_def concat_group_weeks)
  from concat_upt_segment [OF this assms] obtain i where w: "w = [i ..< i + length w]" by blast
  have sub: "set w \<subseteq> {0 ..< length ?dates}"
    using month_weeks_days [OF assms] by auto
  define t where "t = nat ((5 - weekday (year, month, int i + 1)) mod 7)"
  have t: "t < 7" by (simp add: t_def)
  have tw: "(weekday (year, month, int i + 1) + int t) mod 7 = 5"
    using weekday_range [of "(year, month, int i + 1)"] by (simp add: t_def) presburger
  have "i + t \<in> set (butlast w)"
  proof -
    have "i + (length w - 1) \<le> i + length w" by simp
    from take_upt [OF this] w have "take (length w - 1) w = [i ..< i + (length w - 1)]"
      by simp
    then have "butlast w = [i ..< i + (length w - 1)]"
      by (simp add: butlast_conv_take)
    with t len show ?thesis by simp
  qed
  moreover from this have "i + t \<in> set w" by (rule in_set_butlastD)
  with sub have it: "i + t < length ?dates" by auto
  have "?wd (i + t) = 5"
    using dates_of_nth [OF it] weekday_shift [of year month "int i + 1" t] tw
    by (simp add: algebra_simps)
  ultimately show False
    using group_weeks_saturdays(1) [of ?wd "[0 ..< length ?dates]"] assms
    by (auto simp: month_weeks_def)
qed

subsection \<open>Membership in the model\<close>

lemma variables_build_model:
  "set (variables (build_model dnas dates)) =
     set (roster_vars [0 ..< length dnas] [0 ..< length dates])
     \<union> set (weekly_off_vars (month_weeks dates) [0 ..< length dnas])
     \<union> set (shift_lock_vars (month_weeks dates) [0 ..< length dnas])
     \<union> set (totals_vars [0 ..< length dnas] [0 ..< length dates])
     \<union> set (work_vars [0 ..< length dnas] [0 ..< length dates])"
  by (simp add: build_model_def Let_def Un_assoc)

lemma constraints_build_model:
  "set (constraints (build_model dnas dates)) =
     set (dna_constraints dnas [0 ..< length dnas] [0 ..< length dates])
     \<union> set (weekly_off_constraints (month_weeks dates) [0 ..< length dnas])
     \<union> set (shift_lock_constraints (month_weeks dates) [0 ..< length dnas])
     \<union> set (totals_constraints [0 ..< length dnas] [0 ..< length dates])
     \<union> set (work_constraints [0 ..< length dnas])"
  by (simp add: build_model_def Let_def Un_assoc)

lemma in_roster_vars:
  "e \<in> set es \<Longrightarrow> d \<in> set ds \<Longrightarrow> (Shift e d, 0, 2) \<in> set (roster_vars es ds)"
  by (force simp: roster_vars_def)

lemma in_dna_constraints_day:
  "e \<in> set es \<Longrightarrow> d \<in> set ds \<Longrightarrow> dnas ! e = Fixed_Day \<Longrightarrow>
     Linear (Var (Shift e d)) NE (Const 2) [] \<in> set (dna_constraints dnas es ds)"
  by (force simp: dna_constraints_def)

lemma in_dna_constraints_night:
  "e \<in> set es \<Longrightarrow> d \<in> set ds \<Longrightarrow> dnas ! e = Fixed_Night \<Longrightarrow>
     Linear (Var (Shift e d)) NE (Const 1) [] \<in> set (dna_constraints dnas es ds)"
  by (force simp: dna_constraints_def)

lemma in_weekly_off_vars:
  "w \<in> set weeks \<Longrightarrow> e \<in> set es \<Longrightarrow> d \<in> set w \<Longrightarrow> (Is_wo e d, 0, 1) \<in> set (weekly_off_vars weeks es)"
  by (force simp: weekly_off_vars_def)

lemma in_weekly_off_constraints:
  assumes "w \<in> set weeks" "e \<in> set es"
  shows "d \<in> set w \<Longrightarrow> Linear (Var (Shift e d)) EQ (Const 0) [Pos (Is_wo e d)] \<in> set (weekly_off_constraints weeks es)"
    and "d \<in> set w \<Longrightarrow> Linear (Var (Shift e d)) NE (Const 0) [Neg (Is_wo e d)] \<in> set (weekly_off_constraints weeks es)"
    and "length w = 7 \<Longrightarrow> Linear (py_sum (map (\<lambda>d. Var (Is_wo e d)) w)) EQ (Const 2) [] \<in> set (weekly_off_constraints weeks es)"
    and "length w \<noteq> 7 \<Longrightarrow> Linear (py_sum (map (\<lambda>d. Var (Is_wo e d)) w)) LE (Const 2) [] \<in> set (weekly_off_constraints weeks es)"
  using assms by (force simp: weekly_off_constraints_def)+

lemma in_shift_lock_vars:
  assumes "w \<in> set weeks" "e \<in> set es"
  shows "(Has_day e (hd w), 0, 1) \<in> set (shift_lock_vars weeks es)"
    and "(Has_night e (hd w), 0, 1) \<in> set (shift_lock_vars weeks es)"
    and "d \<in> set w \<Longrightarrow> (Is_day e d, 0, 1) \<in> set (shift_lock_vars weeks es)"
    and "d \<in> set w \<Longrightarrow> (Is_night e d, 0, 1) \<in> set (shift_lock_vars weeks es)"
  using assms by (force simp: shift_lock_vars_def)+

lemma in_shift_lock_constraints:
  assumes "w \<in> set weeks" "e \<in> set es"
  shows "d \<in> set w \<Longrightarrow> Linear (Var (Shift e d)) EQ (Const 1) [Pos (Is_day e d)] \<in> set (shift_lock_constraints weeks es)"
    and "d \<in> set w \<Longrightarrow> Linear (Var (Shift e d)) NE (Const 1) [Neg (Is_day e d)] \<in> set (shift_lock_constraints weeks es)"
    and "d \<in> set w \<Longrightarrow> Linear (Var (Shift e d)) EQ (Const 2) [Pos (Is_night e d)] \<in> set (shift_lock_constraints weeks es)"
    and "d \<in> set w \<Longrightarrow> Linear (Var (Shift e d)) NE (Const 2) [Neg (Is_night e d)] \<in> set (shift_lock_constraints weeks es)"
    and "Max_equality (Var (Has_day e (hd w))) (map (\<lambda>d. Var (Is_day e d)) w) \<in> set (shift_lock_constraints weeks es)"
    and "Max_equality (Var (Has_night e (hd w))) (map (\<lambda>d. Var (Is_night e d)) w) \<in> set (shift_lock_constraints weeks es)"
    and "Linear (Plus (Var (Has_day e (hd w))) (Var (Has_night e (hd w)))) LE (Const 1) [] \<in> set (shift_lock_constraints weeks es)"
  using assms by (force simp: shift_lock_constraints_def)+

lemma in_totals_vars:
  assumes "e \<in> set es"
  shows "(Total_days e, 0, int (length ds)) \<in> set (totals_vars es ds)"
    and "(Total_nights e, 0, int (length ds)) \<in> set (totals_vars es ds)"
    and "d \<in> set ds \<Longrightarrow> (Obj_is_d e d, 0, 1) \<in> set (totals_vars es ds)"
    and "d \<in> set ds \<Longrightarrow> (Obj_is_n e d, 0, 1) \<in> set (totals_vars es ds)"
  using assms by (force simp: totals_vars_def)+

lemma in_totals_constraints:
  assumes "e \<in> set es"
  shows "d \<in> set ds \<Longrightarrow> Linear (Var (Shift e d)) EQ (Const 1) [Pos (Obj_is_d e d)] \<in> set (totals_constraints es ds)"
    and "d \<in> set ds \<Longrightarrow> Linear (Var (Shift e d)) NE (Const 1) [Neg (Obj_is_d e d)] \<in> set (totals_constraints es ds)"
    and "d \<in> set ds \<Longrightarrow> Linear (Var (Shift e d)) EQ (Const 2) [Pos (Obj_is_n e d)] \<in> set (totals_constraints es ds)"
    and "d \<in> set ds \<Longrightarrow> Linear (Var (Shift e d)) NE (Const 2) [Neg (Obj_is_n e d)] \<in> set (totals_constraints es ds)"
    and "Linear (Var (Total_days e)) EQ (py_sum (map (\<lambda>d. Var (Obj_is_d e d)) ds)) [] \<in> set (totals_constraints es ds)"
    and "Linear (Var (Total_nights e)) EQ (py_sum (map (\<lambda>d. Var (Obj_is_n e d)) ds)) [] \<in> set (totals_constraints es ds)"
  using assms by (force simp: totals_constraints_def)+

lemma in_work_constraints:
  shows "e \<in> set es \<Longrightarrow> Linear (Var (Total_work e)) EQ (Plus (Var (Total_days e)) (Var (Total_nights e))) [] \<in> set (work_constraints es)"
    and "Min_equality (Var Min_work) (map (\<lambda>e. Var (Total_work e)) es) \<in> set (work_constraints es)"
    and "Max_equality (Var Max_work) (map (\<lambda>e. Var (Total_work e)) es) \<in> set (work_constraints es)"
  by (force simp: work_constraints_def)+

subsection \<open>What a feasible assignment satisfies\<close>

lemma shift_range:
  assumes "feasible v (build_model dnas dates)" "e < length dnas" "d < length dates"
  shows "v (Shift e d) = 0 \<or> v (Shift e d) = 1 \<or> v (Shift e d) = 2"
proof -
  have "(Shift e d, 0, 2) \<in> set (variables (build_model dnas dates))"
    using assms(2,3) by (simp add: variables_build_model in_roster_vars)
  from feasible_bounds [OF assms(1) this] show ?thesis by linarith
qed

lemma is_wo_value:
  assumes "feasible v (build_model dnas dates)" "w \<in> set (month_weeks dates)"
    "e < length dnas" "d \<in> set w"
  shows "v (Is_wo e d) = (if v (Shift e d) = 0 then 1 else 0)"
proof -
  let ?M = "build_model dnas dates"
  from assms have e: "e \<in> set [0 ..< length dnas]" by simp
  have "(Is_wo e d, 0, 1) \<in> set (variables ?M)"
    using in_weekly_off_vars [OF assms(2) e assms(4)] by (simp add: variables_build_model)
  from feasible_bounds [OF assms(1) this] have b: "0 \<le> v (Is_wo e d)" "v (Is_wo e d) \<le> 1" by simp_all
  have "Linear (Var (Shift e d)) EQ (Const 0) [Pos (Is_wo e d)] \<in> set (constraints ?M)"
    "Linear (Var (Shift e d)) NE (Const 0) [Neg (Is_wo e d)] \<in> set (constraints ?M)"
    using in_weekly_off_constraints(1,2) [OF assms(2) e assms(4)] by (simp_all add: constraints_build_model)
  then have "holds v (Linear (Var (Shift e d)) EQ (Const 0) [Pos (Is_wo e d)])"
    "holds v (Linear (Var (Shift e d)) NE (Const 0) [Neg (Is_wo e d)])"
    using feasible_constraint [OF assms(1)] by blast+
  from reified_indicator [OF b this] show ?thesis .
qed

lemma is_day_value:
  assumes "feasible v (build_model dnas dates)" "w \<in> set (month_weeks dates)"
    "e < length dnas" "d \<in> set w"
  shows "v (Is_day e d) = (if v (Shift e d) = 1 then 1 else 0)"
proof -
  let ?M = "build_model dnas dates"
  from assms have e: "e \<in> set [0 ..< length dnas]" by simp
  have "(Is_day e d, 0, 1) \<in> set (variables ?M)"
    using in_shift_lock_vars(3) [OF assms(2) e assms(4)] by (simp add: variables_build_model)
  from feasible_bounds [OF assms(1) this] have b: "0 \<le> v (Is_day e d)" "v (Is_day e d) \<le> 1" by simp_all
  have "Linear (Var (Shift e d)) EQ (Const 1) [Pos (Is_day e d)] \<in> set (constraints ?M)"
    "Linear (Var (Shift e d)) NE (Const 1) [Neg (Is_day e d)] \<in> set (constraints ?M)"
    using in_shift_lock_constraints(1,2) [OF assms(2) e assms(4)] by (simp_all add: constraints_build_model)
  then have "holds v (Linear (Var (Shift e d)) EQ (Const 1) [Pos (Is_day e d)])"
    "holds v (Linear (Var (Shift e d)) NE (Const 1) [Neg (Is_day e d)])"
    using feasible_constraint [OF assms(1)] by blast+
  from reified_indicator [OF b this] show ?thesis .
qed

lemma is_night_value:
  assumes "feasible v (build_model dnas dates)" "w \<in> set (month_weeks dates)"
    "e < length dnas" "d \<in> set w"
  shows "v (Is_night e d) = (if v (Shift e d) = 2 then 1 else 0)"
proof -
  let ?M = "build_model dnas dates"
  from assms have e: "e \<in> set [0 ..< length dnas]" by simp
  have "(Is_night e d, 0, 1) \<in> set (variables ?M)"
    using in_shift_lock_vars(4) [OF assms(2) e assms(4)] by (simp add: variables_build_model)
  from feasible_bounds [OF assms(1) this] have b: "0 \<le> v (Is_night e d)" "v (Is_night e d) \<le> 1" by simp_all
  have "Linear (Var (Shift e d)) EQ (Const 2) [Pos (Is_night e d)] \<in> set (constraints ?M)"
    "Linear (Var (Shift e d)) NE (Const 2) [Neg (Is_night e d)] \<in> set (constraints ?M)"
    using in_shift_lock_constraints(3,4) [OF assms(2) e assms(4)] by (simp_all add: constraints_build_model)
  then have "holds v (Linear (Var (Shift e d)) EQ (Const 2) [Pos (Is_night e d)])"
    "holds v (Linear (Var (Shift e d)) NE (Const 2) [Neg (Is_night e d)])"
    using feasible_constraint [OF assms(1)] by blast+
  from reified_indicator [OF b this] show ?thesis .
qed

lemma feasible_quota:
  assumes "feasible v (build_model dnas dates)" "w \<in> set (month_weeks dates)" "e < length dnas"
  shows "(length w = 7 \<longrightarrow> length (filter (\<lambda>d. v (Shift e d) = 0) w) = 2)
       \<and> (length w \<noteq> 7 \<longrightarrow> length (filter (\<lambda>d. v (Shift e d) = 0) w) \<le> 2)"
proof -
  let ?M = "build_model dnas dates"
  let ?s = "py_sum (map (\<lambda>d. Var (Is_wo e d)) w)"
  from assms have e: "e \<in> set [0 ..< length dnas]" by simp
  have m: "map (eval v) (map (\<lambda>d. Var (Is_wo e d)) w) = map (\<lambda>d. if v (Shift e d) = 0 then 1 else 0) w"
    using is_wo_value [OF assms] by simp
  have "eval v ?s = sum_list (map (\<lambda>d. if v (Shift e d) = 0 then 1 else 0) w)"
    by (simp only: eval_py_sum m)
  then have s: "eval v ?s = int (length (filter (\<lambda>d. v (Shift e d) = 0) w))"
    by (simp add: sum_list_indicator)
  show ?thesis
  proof (intro conjI impI)
    assume "length w = 7"
    from in_weekly_off_constraints(3) [OF assms(2) e this]
    have "Linear ?s EQ (Const 2) [] \<in> set (constraints ?M)" by (simp add: constraints_build_model)
    from feasible_constraint [OF assms(1) this] s
    show "length (filter (\<lambda>d. v (Shift e d) = 0) w) = 2" by simp
  next
    assume "length w \<noteq> 7"
    from in_weekly_off_constraints(4) [OF assms(2) e this]
    have "Linear ?s LE (Const 2) [] \<in> set (constraints ?M)" by (simp add: constraints_build_model)
    from feasible_constraint [OF assms(1) this] s
    show "length (filter (\<lambda>d. v (Shift e d) = 0) w) \<le> 2" by simp
  qed
qed

lemma feasible_shift_lock:
  assumes "feasible v (build_model dnas dates)" "w \<in> set (month_weeks dates)" "e < length dnas"
    "d1 \<in> set w" "v (Shift e d1) = 1" "d2 \<in> set w" "v (Shift e d2) = 2"
  shows False
proof -
  let ?M = "build_model dnas dates"
  from assms have e: "e \<in> set [0 ..< length dnas]" by simp
  have "Max_equality (Var (Has_day e (hd w))) (map (\<lambda>d. Var (Is_day e d)) w) \<in> set (constraints ?M)"
    "Max_equality (Var (Has_night e (hd w))) (map (\<lambda>d. Var (Is_night e d)) w) \<in> set (constraints ?M)"
    "Linear (Plus (Var (Has_day e (hd w))) (Var (Has_night e (hd w)))) LE (Const 1) [] \<in> set (constraints ?M)"
    using in_shift_lock_constraints(5,6,7) [OF assms(2) e] by (simp_all add: constraints_build_model)
  then have h: "holds v (Max_equality (Var (Has_day e (hd w))) (map (\<lambda>d. Var (Is_day e d)) w))"
    "holds v (Max_equality (Var (Has_night e (hd w))) (map (\<lambda>d. Var (Is_night e d)) w))"
    "holds v (Linear (Plus (Var (Has_day e (hd w))) (Var (Has_night e (hd w)))) LE (Const 1) [])"
    using feasible_constraint [OF assms(1)] by blast+
  from h(1) have hd: "v (Has_day e (hd w)) = Max ((\<lambda>d. v (Is_day e d)) ` set w)"
    by (simp add: image_image)
  from h(2) have hn: "v (Has_night e (hd w)) = Max ((\<lambda>d. v (Is_night e d)) ` set w)"
    by (simp add: image_image)
  have "v (Is_day e d1) = 1" using is_day_value [OF assms(1,2,3,4)] assms(5) by simp
  then have "1 \<le> v (Has_day e (hd w))"
    unfolding hd using assms(4) by (metis List.finite_set Max_ge finite_imageI imageI)
  moreover
  have "v (Is_night e d2) = 1" using is_night_value [OF assms(1,2,3,6)] assms(7) by simp
  then have "1 \<le> v (Has_night e (hd w))"
    unfolding hn using assms(6) by (metis List.finite_set Max_ge finite_imageI imageI)
  ultimately show False using h(3) by simp
qed

lemma feasible_dna:
  assumes "feasible v (build_model dnas dates)" "e < length dnas" "d < length dates"
  shows "dnas ! e = Fixed_Day \<Longrightarrow> v (Shift e d) \<noteq> 2"
    and "dnas ! e = Fixed_Night \<Longrightarrow> v (Shift e d) \<noteq> 1"
proof -
  let ?M = "build_model dnas dates"
  from assms have e: "e \<in> set [0 ..< length dnas]" and d: "d \<in> set [0 ..< length dates]" by simp_all
  show "v (Shift e d) \<noteq> 2" if "dnas ! e = Fixed_Day"
  proof -
    from in_dna_constraints_day [OF e d that]
    have "Linear (Var (Shift e d)) NE (Const 2) [] \<in> set (constraints ?M)"
      by (simp add: constraints_build_model)
    from feasible_constraint [OF assms(1) this] show ?thesis by simp
  qed
  show "v (Shift e d) \<noteq> 1" if "dnas ! e = Fixed_Night"
  proof -
    from in_dna_constraints_night [OF e d that]
    have "Linear (Var (Shift e d)) NE (Const 1) [] \<in> set (constraints ?M)"
      by (simp add: constraints_build_model)
    from feasible_constraint [OF assms(1) this] show ?thesis by simp
  qed
qed

subsection \<open>The rows of a generated roster\<close>

lemma lookup_all_total:
  "set ks \<subseteq> fst ` set employee_dna \<Longrightarrow> \<exists>infos. lookup_all employee_dna ks = Inr infos"
proof (induction ks)
  case Nil
  then show ?case by simp
next
  case (Cons k ks)
  then obtain infos where "lookup_all employee_dna ks = Inr infos" by auto
  moreover from Cons.prems obtain info where "map_of employee_dna k = Some info"
    by (cases "map_of employee_dna k") (auto simp: map_of_eq_None_iff)
  ultimately show ?case by simp
qed

lemma lookup_all_length: "lookup_all employee_dna ks = Inr infos \<Longrightarrow> length infos = length ks"
  by (induction ks arbitrary: infos) (auto split: option.splits sum.splits)

lemma shift_map_Inr: "shift_map x = Inr s \<Longrightarrow> (x = 0 \<or> x = 1 \<or> x = 2) \<and> s = shift_of x"
  by (auto simp: shift_map_def shift_of_def split: if_splits)

lemma shift_map_total: "x = 0 \<or> x = 1 \<or> x = 2 \<Longrightarrow> shift_map x = Inr (shift_of x)"
  by (auto simp: shift_map_def shift_of_def)

lemma shift_of_WO: "x = 0 \<or> x = 1 \<or> x = 2 \<Longrightarrow> (shift_of x = WO) = (x = 0)"
  and shift_of_Day: "x = 0 \<or> x = 1 \<or> x = 2 \<Longrightarrow> (shift_of x = Day) = (x = 1)"
  and shift_of_Night: "x = 0 \<or> x = 1 \<or> x = 2 \<Longrightarrow> (shift_of x = Night) = (x = 2)"
  by (auto simp: shift_of_def)

lemma build_cells_Inr:
  "build_cells v dates e ds = Inr cs \<Longrightarrow> cs = map (\<lambda>d. (dates ! d, shift_of (v (Shift e d)))) ds"
  by (induction ds arbitrary: cs) (auto split: sum.splits dest: shift_map_Inr)

lemma build_cells_total:
  "\<forall>d \<in> set ds. v (Shift e d) = 0 \<or> v (Shift e d) = 1 \<or> v (Shift e d) = 2 \<Longrightarrow>
     build_cells v dates e ds = Inr (map (\<lambda>d. (dates ! d, shift_of (v (Shift e d)))) ds)"
  by (induction ds) (simp_all add: shift_map_total)

lemma build_rows_Inr:
  "build_rows v emps infos dates es = Inr data \<Longrightarrow>
     length data = length es \<and> (\<forall>i < length es. build_row v emps infos dates (es ! i) = Inr (data ! i))"
proof (induction es arbitrary: data)
  case Nil
  then show ?case by simp
next
  case (Cons e es)
  from Cons.prems obtain row rest where
    r: "build_row v emps infos dates e = Inr row"
    and rs: "build_rows v emps infos dates es = Inr rest"
    and d: "data = row # rest"
    by (auto split: sum.splits)
  from Cons.IH [OF rs] r d show ?case
    by (auto simp: nth_Cons split: nat.splits)
qed

lemma build_rows_total:
  "\<forall>e \<in> set es. \<exists>row. build_row v emps infos dates e = Inr row \<Longrightarrow>
     \<exists>data. build_rows v emps infos dates es = Inr data"
  by (induction es) auto

lemma build_row_Inr:
  assumes "build_row v emps infos dates e = Inr row"
  shows "Cells row = map (\<lambda>d. (dates ! d, shift_of (v (Shift e d)))) [0 ..< length dates]"
    and "Employee_ID row = emps ! e" and "Shift_DNA row = DNA (infos ! e)"
    and "Total_Shifts row = v (Total_days e) + v (Total_nights e)"
    and "Total_Work_Hours row = (v (Total_days e) + v (Total_nights e)) * 9"
  using assms
  by (auto simp: build_row_def Let_def split: sum.splits dest: build_cells_Inr)

lemma build_row_state:
  assumes "build_row v emps infos dates e = Inr row" "d < length dates"
  shows "state_at row d = shift_of (v (Shift e d))"
  using build_row_Inr(1) [OF assms(1)] assms(2) by (simp add: state_at_def)

lemma generate_roster_success:
  assumes "generate_roster solve employee_dna year month = Inr (Some roster, None)"
  obtains infos st v where
    "1 \<le> month" "month \<le> 12" "1 \<le> year" "year \<le> 9999"
    "lookup_all employee_dna (map fst employee_dna) = Inr infos"
    "solve (build_model (map DNA infos) (dates_of year month)) = (st, v)"
    "st = OPTIMAL \<or> st = FEASIBLE"
    "build_rows v (map fst employee_dna) infos (dates_of year month) [0 ..< length employee_dna] = Inr roster"
  using assms
  by (auto simp: generate_roster_def Let_def split: if_splits sum.splits prod.splits)

lemma successful_row:
  assumes sound: "\<And>m. solver_sound solve m"
    and gen: "generate_roster solve employee_dna year month = Inr (Some roster, None)"
    and row: "row \<in> set roster"
  obtains infos v e where
    "length infos = length employee_dna"
    "feasible v (build_model (map DNA infos) (dates_of year month))"
    "e < length employee_dna"
    "build_row v (map fst employee_dna) infos (dates_of year month) e = Inr row"
proof -
  from generate_roster_success [OF gen] obtain infos st v where
    lk: "lookup_all employee_dna (map fst employee_dna) = Inr infos"
    and sv: "solve (build_model (map DNA infos) (dates_of year month)) = (st, v)"
    and st: "st = OPTIMAL \<or> st = FEASIBLE"
    and br: "build_rows v (map fst employee_dna) infos (dates_of year month) [0 ..< length employee_dna] = Inr roster"
    by blast
  from sound [of "build_model (map DNA infos) (dates_of year month)"] sv st
  have f: "feasible v (build_model (map DNA infos) (dates_of year month))"
    by (auto simp: solver_sound_def)
  from lookup_all_length [OF lk] have l: "length infos = length employee_dna" by simp
  from build_rows_Inr [OF br] have len: "length roster = length employee_dna"
    and rows: "\<forall>i < length employee_dna. build_row v (map fst employee_dna) infos (dates_of year month) i = Inr (roster ! i)"
    by auto
  from row obtain e where e: "e < length roster" "row = roster ! e"
    by (auto simp: in_set_conv_nth)
  with len rows have "build_row v (map fst employee_dna) infos (dates_of year month) e = Inr row"
    by simp
  with l f e len show ?thesis by (intro that [of infos v e]) simp_all
qed


subsection \<open>The sample month\<close>

lemma example_month_weeks: "month_weeks (dates_of 2026 3) = example_weeks"
  by code_simp

lemma example_length_dates: "length (dates_of 2026 3) = 31"
  by code_simp

lemma example_vars_1: "list_all (\<lambda>(x, lo, hi). lo \<le> example_val x \<and> example_val x \<le> hi) (roster_vars [0 ..< 4] [0 ..< 31])"
  by code_simp
lemma example_vars_2: "list_all (\<lambda>(x, lo, hi). lo \<le> example_val x \<and> example_val x \<le> hi) (weekly_off_vars example_weeks [0 ..< 4])"
  by code_simp
lemma example_vars_3: "list_all (\<lambda>(x, lo, hi). lo \<le> example_val x \<and> example_val x \<le> hi) (shift_lock_vars example_weeks [0 ..< 4])"
  by code_simp
lemma example_vars_4: "list_all (\<lambda>(x, lo, hi). lo \<le> example_val x \<and> example_val x \<le> hi) (totals_vars [0 ..< 4] [0 ..< 31])"
  by code_simp
lemma example_vars_5: "list_all (\<lambda>(x, lo, hi). lo \<le> example_val x \<and> example_val x \<le> hi) (work_vars [0 ..< 4] [0 ..< 31])"
  by code_simp
lemma example_cts_1: "list_all (holds example_val) (dna_constraints example_dnas [0 ..< 4] [0 ..< 31])"
  by code_simp
lemma example_cts_2: "list_all (holds example_val) (weekly_off_constraints example_weeks [0 ..< 4])"
  by code_simp
lemma example_cts_3: "list_all (holds example_val) (shift_lock_constraints example_weeks [0 ..< 4])"
  by code_simp
lemma example_cts_4: "list_all (holds example_val) (totals_constraints [0 ..< 4] [0 ..< 31])"
  by code_simp
lemma example_cts_5: "list_all (holds example_val) (work_constraints [0 ..< 4])"
  by code_simp

lemma example_feasible: "feasible example_val (build_model example_dnas (dates_of 2026 3))"
proof -
  have l: "length example_dnas = 4" by (simp add: example_dnas_def)
  show ?thesis
    unfolding feasible_def build_model_def Let_def
    by (simp only: cp_model.simps list_all_append example_month_weeks example_length_dates l
        example_vars_1 example_vars_2 example_vars_3 example_vars_4 example_vars_5
        example_cts_1 example_cts_2 example_cts_3 example_cts_4 example_cts_5 simp_thms)
qed

lemma example_solver_sound: "solver_sound example_solver m"
  by (simp add: solver_sound_def example_solver_def)

lemma example_dates: "dates_of 2026 3 = map (\<lambda>d. (2026, 3, int d + 1)) [0 ..< 31]"
  by code_simp

lemma example_build_rows:
  "build_rows example_val (map fst example_dna) (map snd example_dna) (dates_of 2026 3) [0 ..< 4] = Inr example_roster"
  by code_simp

lemma example_generate:
  "generate_roster example_solver example_dna 2026 3 = Inr (Some example_roster, None)"
proof -
  have lk: "lookup_all example_dna (map fst example_dna) = Inr (map snd example_dna)"
    by (simp add: example_dna_def)
  have d: "map DNA (map snd example_dna) = example_dnas"
    by (simp add: example_dna_def example_dnas_def example_info_def)
  have l: "length (map fst example_dna) = 4" by (simp add: example_dna_def)
  have s: "example_solver (build_model example_dnas (dates_of 2026 3)) = (FEASIBLE, example_val)"
    by (simp add: example_solver_def example_feasible)
  show ?thesis
    unfolding generate_roster_def Let_def
    by (simp only: lk d l s example_build_rows sum.case prod.case) simp
qed

subsection \<open>Totals and the objective\<close>

lemma obj_is_d_value:
  assumes "feasible v (build_model dnas dates)" "e < length dnas" "d < length dates"
  shows "v (Obj_is_d e d) = (if v (Shift e d) = 1 then 1 else 0)"
proof -
  let ?M = "build_model dnas dates"
  from assms have e: "e \<in> set [0 ..< length dnas]" and d: "d \<in> set [0 ..< length dates]" by simp_all
  have "(Obj_is_d e d, 0, 1) \<in> set (variables ?M)"
    using in_totals_vars(3) [OF e d] by (simp add: variables_build_model)
  from feasible_bounds [OF assms(1) this] have b: "0 \<le> v (Obj_is_d e d)" "v (Obj_is_d e d) \<le> 1" by simp_all
  have "Linear (Var (Shift e d)) EQ (Const 1) [Pos (Obj_is_d e d)] \<in> set (constraints ?M)"
    "Linear (Var (Shift e d)) NE (Const 1) [Neg (Obj_is_d e d)] \<in> set (constraints ?M)"
    using in_totals_constraints(1,2) [OF e d] by (simp_all add: constraints_build_model)
  then have "holds v (Linear (Var (Shift e d)) EQ (Const 1) [Pos (Obj_is_d e d)])"
    "holds v (Linear (Var (Shift e d)) NE (Const 1) [Neg (Obj_is_d e d)])"
    using feasible_constraint [OF assms(1)] by blast+
  from reified_indicator [OF b this] show ?thesis .
qed

lemma obj_is_n_value:
  assumes "feasible v (build_model dnas dates)" "e < length dnas" "d < length dates"
  shows "v (Obj_is_n e d) = (if v (Shift e d) = 2 then 1 else 0)"
proof -
  let ?M = "build_model dnas dates"
  from assms have e: "e \<in> set [0 ..< length dnas]" and d: "d \<in> set [0 ..< length dates]" by simp_all
  have "(Obj_is_n e d, 0, 1) \<in> set (variables ?M)"
    using in_totals_vars(4) [OF e d] by (simp add: variables_build_model)
  from feasible_bounds [OF assms(1) this] have b: "0 \<le> v (Obj_is_n e d)" "v (Obj_is_n e d) \<le> 1" by simp_all
  have "Linear (Var (Shift e d)) EQ (Const 2) [Pos (Obj_is_n e d)] \<in> set (constraints ?M)"
    "Linear (Var (Shift e d)) NE (Const 2) [Neg (Obj_is_n e d)] \<in> set (constraints ?M)"
    using in_totals_constraints(3,4) [OF e d] by (simp_all add: constraints_build_model)
  then have "holds v (Linear (Var (Shift e d)) EQ (Const 2) [Pos (Obj_is_n e d)])"
    "holds v (Linear (Var (Shift e d)) NE (Const 2) [Neg (Obj_is_n e d)])"
    using feasible_constraint [OF assms(1)] by blast+
  from reified_indicator [OF b this] show ?thesis .
qed

lemma count_day_night:
  "\<forall>d \<in> set ds. x d = 0 \<or> x d = 1 \<or> x d = (2::int) \<Longrightarrow>
     length (filter (\<lambda>d. x d = 1) ds) + length (filter (\<lambda>d. x d = 2) ds)
       = length (filter (\<lambda>d. x d \<noteq> 0) ds)"
  by (induction ds) auto

lemma feasible_totals:
  assumes "feasible v (build_model dnas dates)" "e < length dnas"
  shows "v (Total_days e) = int (length (filter (\<lambda>d. v (Shift e d) = 1) [0 ..< length dates]))"
    and "v (Total_nights e) = int (length (filter (\<lambda>d. v (Shift e d) = 2) [0 ..< length dates]))"
    and "v (Total_work e) = v (Total_days e) + v (Total_nights e)"
    and "v (Total_work e) = total_work v (length dates) e"
proof -
  let ?M = "build_model dnas dates"
  let ?ds = "[0 ..< length dates]"
  from assms have e: "e \<in> set [0 ..< length dnas]" by simp
  have md: "map (eval v) (map (\<lambda>d. Var (Obj_is_d e d)) ?ds) = map (\<lambda>d. if v (Shift e d) = 1 then 1 else 0) ?ds"
    using obj_is_d_value [OF assms] by simp
  have mn: "map (eval v) (map (\<lambda>d. Var (Obj_is_n e d)) ?ds) = map (\<lambda>d. if v (Shift e d) = 2 then 1 else 0) ?ds"
    using obj_is_n_value [OF assms] by simp
  have "Linear (Var (Total_days e)) EQ (py_sum (map (\<lambda>d. Var (Obj_is_d e d)) ?ds)) [] \<in> set (constraints ?M)"
    using in_totals_constraints(5) [OF e] by (simp add: constraints_build_model)
  from feasible_constraint [OF assms(1) this]
  have "v (Total_days e) = sum_list (map (eval v) (map (\<lambda>d. Var (Obj_is_d e d)) ?ds))"
    by (simp only: holds.simps rel_holds.simps eval.simps eval_py_sum list.pred_inject simp_thms)
  then show td: "v (Total_days e) = int (length (filter (\<lambda>d. v (Shift e d) = 1) ?ds))"
    by (simp only: md sum_list_indicator)
  have "Linear (Var (Total_nights e)) EQ (py_sum (map (\<lambda>d. Var (Obj_is_n e d)) ?ds)) [] \<in> set (constraints ?M)"
    using in_totals_constraints(6) [OF e] by (simp add: constraints_build_model)
  from feasible_constraint [OF assms(1) this]
  have "v (Total_nights e) = sum_list (map (eval v) (map (\<lambda>d. Var (Obj_is_n e d)) ?ds))"
    by (simp only: holds.simps rel_holds.simps eval.simps eval_py_sum list.pred_inject simp_thms)
  then show tn: "v (Total_nights e) = int (length (filter (\<lambda>d. v (Shift e d) = 2) ?ds))"
    by (simp only: mn sum_list_indicator)
  have "Linear (Var (Total_work e)) EQ (Plus (Var (Total_days e)) (Var (Total_nights e))) [] \<in> set (constraints ?M)"
    using in_work_constraints(1) [OF e] by (simp add: constraints_build_model)
  from feasible_constraint [OF assms(1) this]
  show tw: "v (Total_work e) = v (Total_days e) + v (Total_nights e)" by simp
  have "\<forall>d \<in> set ?ds. v (Shift e d) = 0 \<or> v (Shift e d) = 1 \<or> v (Shift e d) = 2"
    using shift_range [OF assms] by simp
  from count_day_night [OF this] td tn tw
  show "v (Total_work e) = total_work v (length dates) e"
    by (simp add: total_work_def)
qed

lemma feasible_nonempty:
  assumes "feasible v (build_model dnas dates)"
  shows "dnas \<noteq> []"
proof -
  have "Min_equality (Var Min_work) (map (\<lambda>e. Var (Total_work e)) [0 ..< length dnas])
          \<in> set (constraints (build_model dnas dates))"
    using in_work_constraints(2) by (simp add: constraints_build_model)
  from feasible_constraint [OF assms this] show ?thesis by simp
qed

lemma feasible_min_max:
  assumes "feasible v (build_model dnas dates)"
  shows "v Min_work = Min (set (map (total_work v (length dates)) [0 ..< length dnas]))"
    and "v Max_work = Max (set (map (total_work v (length dates)) [0 ..< length dnas]))"
proof -
  let ?M = "build_model dnas dates"
  let ?es = "[0 ..< length dnas]"
  have m: "map (eval v) (map (\<lambda>e. Var (Total_work e)) ?es) = map (total_work v (length dates)) ?es"
    using feasible_totals(4) [OF assms] by simp
  have "Min_equality (Var Min_work) (map (\<lambda>e. Var (Total_work e)) ?es) \<in> set (constraints ?M)"
    using in_work_constraints(2) by (simp add: constraints_build_model)
  from feasible_constraint [OF assms this]
  have "v Min_work = Min (set (map (eval v) (map (\<lambda>e. Var (Total_work e)) ?es)))"
    by (simp only: holds.simps eval.simps)
  then show "v Min_work = Min (set (map (total_work v (length dates)) ?es))"
    by (simp only: m)
  have "Max_equality (Var Max_work) (map (\<lambda>e. Var (Total_work e)) ?es) \<in> set (constraints ?M)"
    using in_work_constraints(3) by (simp add: constraints_build_model)
  from feasible_constraint [OF assms this]
  have "v Max_work = Max (set (map (eval v) (map (\<lambda>e. Var (Total_work e)) ?es)))"
    by (simp only: holds.simps eval.simps)
  then show "v Max_work = Max (set (map (total_work v (length dates)) ?es))"
    by (simp only: m)
qed


lemma lookup_all_employees: "\<exists>infos. lookup_all employee_dna (map fst employee_dna) = Inr infos"
  by (rule lookup_all_total) simp

lemma build_row_total:
  assumes "feasible v (build_model dnas dates)" "e < length dnas"
  shows "\<exists>row. build_row v emps infos dates e = Inr row"
proof -
  have "\<forall>d \<in> set [0 ..< length dates]. v (Shift e d) = 0 \<or> v (Shift e d) = 1 \<or> v (Shift e d) = 2"
    using shift_range [OF assms] by simp
  from build_cells_total [OF this] show ?thesis
    by (simp add: build_row_def Let_def)
qed

lemma build_row_worked_days:
  assumes "feasible v (build_model dnas dates)" "e < length dnas"
    and "build_row v emps infos dates e = Inr row"
  shows "Total_Shifts row = worked_days row"
proof -
  have "filter (\<lambda>d. shift_of (v (Shift e d)) \<noteq> WO) [0 ..< length dates]
          = filter (\<lambda>d. v (Shift e d) \<noteq> 0) [0 ..< length dates]"
    using shift_of_WO [OF shift_range [OF assms(1,2)]] by (intro filter_cong) simp_all
  then have "worked_days row = total_work v (length dates) e"
    using build_row_Inr(1) [OF assms(3)]
    by (simp add: worked_days_def total_work_def filter_map comp_def)
  with feasible_totals(3,4) [OF assms(1,2)] build_row_Inr(4) [OF assms(3)]
  show ?thesis by simp
qed


lemma generate_roster_invalid_date:
  "\<not> (1 \<le> month \<and> month \<le> 12) \<Longrightarrow> generate_roster solve employee_dna year month = Inl IllegalMonthError"
  "1 \<le> month \<and> month \<le> 12 \<Longrightarrow> \<not> (1 \<le> year \<and> year \<le> 9999) \<Longrightarrow>
     generate_roster solve employee_dna year month = Inl ValueError"
  by (simp_all add: generate_roster_def)


subsection \<open>The analysis of the history\<close>

lemma count_shifts_counts:
  "count_shifts cols r ds dc nc = Inr (dc', nc') \<Longrightarrow>
     dc' = dc + int (length (filter (\<lambda>col. history_val cols r col = Some ''DAY'') ds))
   \<and> nc' = nc + int (length (filter (\<lambda>col. history_val cols r col = Some ''NIGHT'') ds))"
proof (induction ds arbitrary: dc nc)
  case Nil
  then show ?case by simp
next
  case (Cons col ds)
  from Cons.prems obtain c where c: "map_of (zip cols r) col = Some c"
    by (auto simp: row_get_def split: option.splits)
  consider (day) "cell_val c = ''DAY''" | (night) "cell_val c = ''NIGHT''"
    | (other) "cell_val c \<noteq> ''DAY''" "cell_val c \<noteq> ''NIGHT''"
    by blast
  then show ?case
  proof cases
    case day
    with Cons.prems c have "count_shifts cols r ds (dc + 1) nc = Inr (dc', nc')"
      by (simp add: row_get_def)
    from Cons.IH [OF this] day c show ?thesis
      by (simp add: history_val_def)
  next
    case night
    with Cons.prems c have "count_shifts cols r ds dc (nc + 1) = Inr (dc', nc')"
      by (simp add: row_get_def)
    from Cons.IH [OF this] night c show ?thesis
      by (simp add: history_val_def)
  next
    case other
    with Cons.prems c have "count_shifts cols r ds dc nc = Inr (dc', nc')"
      by (simp add: row_get_def)
    from Cons.IH [OF this] other c show ?thesis
      by (simp add: history_val_def)
  qed
qed

lemma count_shifts_total:
  "\<forall>col \<in> set ds. map_of (zip cols r) col \<noteq> None \<Longrightarrow> \<exists>p. count_shifts cols r ds dc nc = Inr p"
  by (induction ds arbitrary: dc nc) (auto simp: row_get_def Let_def split: option.splits)

lemma analyze_row_counts:
  assumes "analyze_row cols date_cols r = Inr (emp_id, info)"
  shows "row_get cols r ''Employee ID'' = Inr emp_id"
    and "Day_Count info = int (length (filter (\<lambda>col. history_val cols r col = Some ''DAY'') date_cols))"
    and "Night_Count info = int (length (filter (\<lambda>col. history_val cols r col = Some ''NIGHT'') date_cols))"
    and "DNA info = determine_dna (Day_Count info) (Night_Count info)"
proof -
  from assms obtain dc nc where
    cs: "count_shifts cols r date_cols 0 0 = Inr (dc, nc)"
    and i: "Day_Count info = dc" "Night_Count info = nc" "DNA info = determine_dna dc nc"
    and k: "row_get cols r ''Employee ID'' = Inr emp_id"
    by (auto simp: analyze_row_def split: sum.splits)
  from count_shifts_counts [OF cs] i k
  show "row_get cols r ''Employee ID'' = Inr emp_id"
    and "Day_Count info = int (length (filter (\<lambda>col. history_val cols r col = Some ''DAY'') date_cols))"
    and "Night_Count info = int (length (filter (\<lambda>col. history_val cols r col = Some ''NIGHT'') date_cols))"
    and "DNA info = determine_dna (Day_Count info) (Night_Count info)"
    by simp_all
qed

lemma analyze_rows_origin:
  "analyze_rows cols dcs rs acc = Inr d \<Longrightarrow> (k, info) \<in> set d \<Longrightarrow>
     (k, info) \<in> set acc \<or> (\<exists>r \<in> set rs. analyze_row cols dcs r = Inr (k, info))"
proof (induction rs arbitrary: acc)
  case Nil
  then show ?case by simp
next
  case (Cons r rs)
  from Cons.prems(1) obtain k' info' where
    r: "analyze_row cols dcs r = Inr (k', info')"
    and rest: "analyze_rows cols dcs rs (AList.update k' info' acc) = Inr d"
    by (auto split: sum.splits)
  from Cons.IH [OF rest Cons.prems(2)]
  show ?case
  proof
    assume "(k, info) \<in> set (AList.update k' info' acc)"
    then have "(k, info) \<in> set acc \<or> (k, info) = (k', info')"
      by (induction acc) (auto split: if_splits)
    with r show ?thesis by auto
  next
    assume "\<exists>r \<in> set rs. analyze_row cols dcs r = Inr (k, info)"
    then show ?thesis by auto
  qed
qed


lemma example_load:
  "load_and_analyze_data (Inr example_df) =
     Inr (Loaded example_df
       [(CInt 104, \<lparr>Name = CStr ''Asha'', DNA = Fixed_Day, Day_Count = 2, Night_Count = 0,
                    Status = CStr ''Active'', Department = CStr ''Inbound''\<rparr>),
        (CInt 101, \<lparr>Name = CStr ''Kiran'', DNA = Rotating, Day_Count = 0, Night_Count = 0,
                    Status = CStr ''Active'', Department = CStr ''Inbound''\<rparr>)])"
  by code_simp

subsection \<open>The replacement finder\<close>

lemma dna_constraints_origin:
  assumes "c \<in> set (dna_constraints dnas es ds)"
  shows "\<exists>e \<in> set es. \<exists>d \<in> set ds.
           (dnas ! e = Fixed_Day \<and> c = Linear (Var (Shift e d)) NE (Const 2) [])
         \<or> (dnas ! e = Fixed_Night \<and> c = Linear (Var (Shift e d)) NE (Const 1) [])"
  using assms by (auto simp: dna_constraints_def split: if_splits)

lemma select_rows_Inr:
  "select_rows P rs dt = Inr sel \<Longrightarrow>
     sel = filter (\<lambda>r. \<exists>s. row_date r dt = Inr s \<and> P s) rs \<and> (\<forall>r \<in> set rs. \<exists>s. row_date r dt = Inr s)"
proof (induction rs arbitrary: sel)
  case Nil
  then show ?case by simp
next
  case (Cons r rs)
  from Cons.prems obtain s sel' where s: "row_date r dt = Inr s"
    and r: "select_rows P rs dt = Inr sel'" and e: "sel = (if P s then r # sel' else sel')"
    by (auto split: sum.splits)
  from Cons.IH [OF r] s e show ?case by auto
qed

lemma select_rows_total:
  "\<forall>r \<in> set rs. \<exists>s. row_date r dt = Inr s \<Longrightarrow> \<exists>sel. select_rows P rs dt = Inr sel"
  by (induction rs) auto

lemma find_candidates_Inr:
  assumes "find_candidates roster_df selected_date selected_emp_name = Inr (absent_shift, candidates)"
  shows "candidates = sort_key Total_Shifts
           (filter (\<lambda>c. row_date c selected_date = Inr WO \<and> compatible absent_shift c) roster_df)"
proof -
  from assms obtain absent_emp_row rest where
    a: "filter (\<lambda>r. py_eq (Row_Name r) selected_emp_name) roster_df = absent_emp_row # rest"
    by (cases "filter (\<lambda>r. py_eq (Row_Name r) selected_emp_name) roster_df")
      (simp_all add: find_candidates_def)
  from assms a have sh: "row_date absent_emp_row selected_date = Inr absent_shift"
    by (cases "row_date absent_emp_row selected_date")
      (auto simp: find_candidates_def split: sum.splits)
  from assms a sh obtain wo where
    s: "select_rows (\<lambda>s. s = WO) roster_df selected_date = Inr wo"
    by (cases "select_rows (\<lambda>s. s = WO) roster_df selected_date")
      (simp_all add: find_candidates_def)
  from assms a sh s have c: "candidates = sort_key Total_Shifts (filter (compatible absent_shift) wo)"
    by (cases absent_shift)
      (simp_all add: find_candidates_def sort_values_total_shifts_def compatible_def [abs_def])
  from select_rows_Inr [OF s] have "wo = filter (\<lambda>r. row_date r selected_date = Inr WO) roster_df"
    by simp
  with c show ?thesis by (simp add: conj_commute)
qed

lemma example_candidates:
  "find_candidates example_roster (2026, 3, 1) (CStr ''Asha'')
     = Inr (Day, [example_row example_dna 1, example_row example_dna 3])"
  by code_simp

lemma example_options: "absent_options example_roster (2026, 3, 1) = Inr [CStr ''Asha'']"
  by code_simp

lemma set_unique: "set (unique xs) = set xs"
  by (simp add: unique_def)

lemma py_eq_iff: "b \<noteq> CNaN \<Longrightarrow> py_eq a b = (a = b)"
  by (cases a; cases b) simp_all

lemma find_candidates_missing_name: "find_candidates roster_df selected_date CNaN = Inl IndexError"
proof -
  have "py_eq a CNaN = False" for a by (cases a) simp_all
  then have "filter (\<lambda>r. py_eq (Row_Name r) CNaN) roster_df = []" by simp
  then show ?thesis unfolding find_candidates_def by (simp only: list.case)
qed

lemma filter_distinct_key:
  "distinct (map f xs) \<Longrightarrow> x \<in> set xs \<Longrightarrow> filter (\<lambda>y. f y = f x) xs = [x]"
proof (induction xs)
  case Nil
  then show ?case by simp
next
  case (Cons a xs)
  show ?case
  proof (cases "a = x")
    case True
    with Cons.prems(1) have "\<forall>y \<in> set xs. f y \<noteq> f x" by (metis distinct.simps(2) image_eqI list.simps(9) set_map)
    then have "filter (\<lambda>y. f y = f x) xs = []" by (simp add: filter_empty_conv)
    with True show ?thesis by simp
  next
    case False
    with Cons.prems have x: "x \<in> set xs" and d: "distinct (map f xs)" by simp_all
    from Cons.prems(1) x have "f a \<noteq> f x" by (metis distinct.simps(2) image_eqI list.simps(9) set_map)
    with Cons.IH [OF d x] show ?thesis by simp
  qed
qed

lemma example_build_rows_namesake:
  "build_rows example_val (map fst example_dna_namesake) (map snd example_dna_namesake) (dates_of 2026 3) [0 ..< 4]
     = Inr example_roster_namesake"
  by code_simp

lemma example_generate_namesake:
  "generate_roster example_solver example_dna_namesake 2026 3 = Inr (Some example_roster_namesake, None)"
proof -
  have lk: "lookup_all example_dna_namesake (map fst example_dna_namesake) = Inr (map snd example_dna_namesake)"
    by (simp add: example_dna_namesake_def)
  have d: "map DNA (map snd example_dna_namesake) = example_dnas"
    by (simp add: example_dna_namesake_def example_dnas_def example_info_def)
  have l: "length (map fst example_dna_namesake) = 4" by (simp add: example_dna_namesake_def)
  have s: "example_solver (build_model example_dnas (dates_of 2026 3)) = (FEASIBLE, example_val)"
    by (simp add: example_solver_def example_feasible)
  show ?thesis
    unfolding generate_roster_def Let_def
    by (simp only: lk d l s example_build_rows_namesake sum.case prod.case) simp
qed

lemma example_options_namesake:
  "absent_options example_roster_namesake (2026, 3, 3) = Inr [CStr ''Ravi'', CStr ''Meena'', CStr ''Asha'']"
  by code_simp

lemma example_candidates_namesake:
  "find_candidates example_roster_namesake (2026, 3, 3) (CStr ''Asha'')
     = Inr (WO, [example_row example_dna_namesake 0])"
  by code_simp

lemma example_replacement_namesake:
  "find_replacement example_roster_namesake (2026, 3, 3) (CStr ''Asha'')
     = Inr (Best_fit (example_row example_dna_namesake 0) [example_row example_dna_namesake 0])"
  unfolding find_replacement_def by (simp only: example_candidates_namesake sum.case prod.case list.case) simp

lemma example_names_distinct: "distinct (map Row_Name example_roster)"
  by code_simp

section \<open>Properties of a generated roster\<close>





text \<open>
  Claim C4. In a roster returned by a successful solve, a row whose Shift DNA is Fixed\_Day
  has no Night cell and a row whose Shift DNA is Fixed\_Night has no Day cell. The DNA rule
  adds constraints for employees of these two classes only: every constraint of
  \<open>dna_constraints\<close> is about an employee that is not Rotating.
\<close>

theorem dna_constraint:
  assumes sound: "\<And>m. solver_sound solve m"
    and gen: "generate_roster solve employee_dna year month = Inr (Some roster, None)"
    and row: "row \<in> set roster"
  shows "(Shift_DNA row = Fixed_Day \<longrightarrow> Night \<notin> snd ` set (Cells row))
       \<and> (Shift_DNA row = Fixed_Night \<longrightarrow> Day \<notin> snd ` set (Cells row))
       \<and> (\<forall>c \<in> set (dna_constraints dnas es ds). \<exists>e \<in> set es. \<exists>d \<in> set ds.
             dnas ! e \<noteq> Rotating
             \<and> (c = Linear (Var (Shift e d)) NE (Const 2) [] \<or> c = Linear (Var (Shift e d)) NE (Const 1) []))"
proof -
  let ?dates = "dates_of year month"
  from successful_row [OF sound gen row] obtain infos v e where
    l: "length infos = length employee_dna"
    and f: "feasible v (build_model (map DNA infos) ?dates)"
    and e: "e < length employee_dna"
    and r: "build_row v (map fst employee_dna) infos ?dates e = Inr row"
    by blast
  from e l have e': "e < length (map DNA infos)" by simp
  from e l have dna: "map DNA infos ! e = Shift_DNA row"
    using build_row_Inr(3) [OF r] by simp
  have cells: "snd ` set (Cells row) = (\<lambda>d. shift_of (v (Shift e d))) ` {0 ..< length ?dates}"
    using build_row_Inr(1) [OF r] by (simp add: image_image)
  have a: "Night \<notin> snd ` set (Cells row)" if "Shift_DNA row = Fixed_Day"
  proof
    assume "Night \<in> snd ` set (Cells row)"
    then obtain d where d: "d < length ?dates" "shift_of (v (Shift e d)) = Night"
      unfolding cells by auto
    from d(2) shift_of_Night [OF shift_range [OF f e' d(1)]] have "v (Shift e d) = 2" by simp
    with feasible_dna(1) [OF f e' d(1)] dna that show False by simp
  qed
  have b: "Day \<notin> snd ` set (Cells row)" if "Shift_DNA row = Fixed_Night"
  proof
    assume "Day \<in> snd ` set (Cells row)"
    then obtain d where d: "d < length ?dates" "shift_of (v (Shift e d)) = Day"
      unfolding cells by auto
    from d(2) shift_of_Day [OF shift_range [OF f e' d(1)]] have "v (Shift e d) = 1" by simp
    with feasible_dna(2) [OF f e' d(1)] dna that show False by simp
  qed
  have c: "\<forall>c \<in> set (dna_constraints dnas es ds). \<exists>e \<in> set es. \<exists>d \<in> set ds.
             dnas ! e \<noteq> Rotating
             \<and> (c = Linear (Var (Shift e d)) NE (Const 2) [] \<or> c = Linear (Var (Shift e d)) NE (Const 1) [])"
  proof
    fix c assume "c \<in> set (dna_constraints dnas es ds)"
    from dna_constraints_origin [OF this] show "\<exists>e \<in> set es. \<exists>d \<in> set ds.
             dnas ! e \<noteq> Rotating
             \<and> (c = Linear (Var (Shift e d)) NE (Const 2) [] \<or> c = Linear (Var (Shift e d)) NE (Const 1) [])"
      by fastforce
  qed
  from a b c show ?thesis by blast
qed

text \<open>The sample month: Asha (Fixed\_Day) has no Night cell, Meena (Fixed\_Night) no Day cell.\<close>

theorem dna_constraint_witness:
  "generate_roster example_solver example_dna 2026 3 = Inr (Some example_roster, None)
   \<and> example_row example_dna 0 \<in> set example_roster
   \<and> Shift_DNA (example_row example_dna 0) = Fixed_Day
   \<and> Night \<notin> snd ` set (Cells (example_row example_dna 0))
   \<and> example_row example_dna 2 \<in> set example_roster
   \<and> Shift_DNA (example_row example_dna 2) = Fixed_Night
   \<and> Day \<notin> snd ` set (Cells (example_row example_dna 2))"
proof -
  have r0: "example_row example_dna 0 \<in> set example_roster"
    and r2: "example_row example_dna 2 \<in> set example_roster"
    by (simp_all add: example_roster_def)
  have d0: "Shift_DNA (example_row example_dna 0) = Fixed_Day"
    and d2: "Shift_DNA (example_row example_dna 2) = Fixed_Night"
    by (simp_all add: example_row_def example_dna_def example_info_def)
  from dna_constraint [OF example_solver_sound example_generate r0]
    dna_constraint [OF example_solver_sound example_generate r2]
    example_generate r0 r2 d0 d2
  show ?thesis by blast
qed







text \<open>
  The guard of the select box. It offers only the names of employees working on the date;
  when the names of the roster are pairwise distinct and the selected name is not missing,
  the shift read for it is Day or Night.
\<close>

lemma absent_guard_distinct_names:
  assumes opts: "absent_options roster_df selected_date = Inr names"
    and sel: "selected_emp_name \<in> set names"
    and present: "selected_emp_name \<noteq> CNaN"
    and dist: "distinct (map Row_Name roster_df)"
  shows "\<exists>absent_shift candidates.
           find_candidates roster_df selected_date selected_emp_name = Inr (absent_shift, candidates)
         \<and> (absent_shift = Day \<or> absent_shift = Night)"
proof -
  from opts obtain wk where
    w: "select_rows (\<lambda>s. s = Day \<or> s = Night) roster_df selected_date = Inr wk"
    and n: "names = unique (map Row_Name wk)"
    by (cases "select_rows (\<lambda>s. s = Day \<or> s = Night) roster_df selected_date")
      (simp_all add: absent_options_def)
  from select_rows_Inr [OF w]
  have wk: "wk = filter (\<lambda>r. \<exists>s. row_date r selected_date = Inr s \<and> (s = Day \<or> s = Night)) roster_df"
    and all: "\<forall>r \<in> set roster_df. \<exists>s. row_date r selected_date = Inr s"
    by (rule conjunct1, rule conjunct2)
  from sel n have "selected_emp_name \<in> Row_Name ` set wk" by (simp add: set_unique)
  then obtain r where r: "r \<in> set wk" and rn: "Row_Name r = selected_emp_name" by (rule imageE) simp
  from r have rin: "r \<in> set roster_df"
    and "\<exists>s. row_date r selected_date = Inr s \<and> (s = Day \<or> s = Night)"
    unfolding wk by simp_all
  then obtain s where s: "row_date r selected_date = Inr s" and ds: "s = Day \<or> s = Night"
    by (elim exE conjE)
  have e: "(\<lambda>y. py_eq (Row_Name y) selected_emp_name) = (\<lambda>y. Row_Name y = selected_emp_name)"
    using py_eq_iff [OF present] by simp
  from filter_distinct_key [OF dist rin] rn
  have "filter (\<lambda>y. Row_Name y = selected_emp_name) roster_df = [r]" by simp
  then have f: "filter (\<lambda>y. py_eq (Row_Name y) selected_emp_name) roster_df = [r]"
    by (simp only: e)
  from select_rows_total [OF all, of "\<lambda>s. s = WO"] obtain wo where
    wo: "select_rows (\<lambda>s. s = WO) roster_df selected_date = Inr wo" by (elim exE)
  have "find_candidates roster_df selected_date selected_emp_name
          = Inr (s, sort_values_total_shifts
                      (if s = Night then filter (\<lambda>c. Shift_DNA c \<noteq> Fixed_Day) wo
                       else if s = Day then filter (\<lambda>c. Shift_DNA c \<noteq> Fixed_Night) wo
                       else wo))"
    unfolding find_candidates_def by (simp only: f s wo list.case sum.case)
  with ds show ?thesis by (intro exI conjI)
qed

text \<open>The sample month: Asha, the only employee working on 1 March.\<close>

lemma absent_guard_example:
  "absent_options example_roster (2026, 3, 1) = Inr [CStr ''Asha'']
   \<and> distinct (map Row_Name example_roster)
   \<and> (\<exists>absent_shift candidates.
         find_candidates example_roster (2026, 3, 1) (CStr ''Asha'') = Inr (absent_shift, candidates)
       \<and> (absent_shift = Day \<or> absent_shift = Night))"
proof -
  have m: "CStr ''Asha'' \<in> set [CStr ''Asha'']" by simp
  have p: "CStr ''Asha'' \<noteq> CNaN" by simp
  from absent_guard_distinct_names [OF example_options m p example_names_distinct]
    example_options example_names_distinct
  show ?thesis by (intro conjI)
qed

section \<open>Properties of the replacement finder\<close>

text \<open>
  Claim C6, as the code has it. The candidates left by the compatibility filter are ranked
  ascending by Total Shifts: the ranking is sorted by that column and is a rearrangement
  of the filtered candidates. The sort has no second key: candidates of equal Total Shifts
  are not ordered by employee identifier, and in the model they keep the order of the
  roster rows.
\<close>

theorem candidates_ranked:
  assumes "find_candidates roster_df selected_date selected_emp_name = Inr (absent_shift, candidates)"
  shows "sorted (map Total_Shifts candidates)
       \<and> mset candidates
           = mset (filter (\<lambda>c. row_date c selected_date = Inr WO \<and> compatible absent_shift c) roster_df)
       \<and> filter (\<lambda>c. Total_Shifts c = k) candidates
           = filter (\<lambda>c. Total_Shifts c = k)
               (filter (\<lambda>c. row_date c selected_date = Inr WO \<and> compatible absent_shift c) roster_df)"
proof -
  let ?xs = "filter (\<lambda>c. row_date c selected_date = Inr WO \<and> compatible absent_shift c) roster_df"
  have c: "candidates = sort_key Total_Shifts ?xs" by (rule find_candidates_Inr [OF assms])
  have 1: "sorted (map Total_Shifts (sort_key Total_Shifts ?xs))" by (rule sorted_sort_key)
  have 2: "mset (sort_key Total_Shifts ?xs) = mset ?xs" by (rule mset_sort)
  have 3: "filter (\<lambda>c. Total_Shifts c = k) (sort_key Total_Shifts ?xs) = filter (\<lambda>c. Total_Shifts c = k) ?xs"
    by (rule sort_key_stable)
  show ?thesis unfolding c using 1 2 3 by (intro conjI)
qed

text \<open>The sample month: the replacement of Asha on 1 March.\<close>

theorem candidates_ranked_witness:
  "find_candidates example_roster (2026, 3, 1) (CStr ''Asha'')
     = Inr (Day, [example_row example_dna 1, example_row example_dna 3])
   \<and> sorted (map Total_Shifts [example_row example_dna 1, example_row example_dna 3])
   \<and> mset [example_row example_dna 1, example_row example_dna 3]
       = mset (filter (\<lambda>c. row_date c (2026, 3, 1) = Inr WO \<and> compatible Day c) example_roster)"
proof -
  from candidates_ranked [OF example_candidates]
  have "sorted (map Total_Shifts [example_row example_dna 1, example_row example_dna 3])"
    and "mset [example_row example_dna 1, example_row example_dna 3]
       = mset (filter (\<lambda>c. row_date c (2026, 3, 1) = Inr WO \<and> compatible Day c) example_roster)"
    by (rule conjunct1, rule conjunct2 [THEN conjunct1])
  with example_candidates show ?thesis by (intro conjI)
qed

text \<open>
  Claim C6 as stated fails. In the sample roster Ravi (103) and Kiran (101) both rest on
  1 March and both have 21 shifts; the ranking for Asha's day shift lists 103 before 101.
\<close>

theorem tie_order_counterexample:
  "generate_roster example_solver example_dna 2026 3 = Inr (Some example_roster, None)
   \<and> absent_options example_roster (2026, 3, 1) = Inr [CStr ''Asha'']
   \<and> find_candidates example_roster (2026, 3, 1) (CStr ''Asha'')
       = Inr (Day, [example_row example_dna 1, example_row example_dna 3])
   \<and> map Total_Shifts [example_row example_dna 1, example_row example_dna 3] = [21, 21]
   \<and> map Employee_ID [example_row example_dna 1, example_row example_dna 3] = [CInt 103, CInt 101]
   \<and> \<not> ranked_by_total_then_id [example_row example_dna 1, example_row example_dna 3]"
proof -
  have t: "map Total_Shifts [example_row example_dna 1, example_row example_dna 3] = [21, 21]"
    by (simp add: example_row_def)
  have i: "map Employee_ID [example_row example_dna 1, example_row example_dna 3] = [CInt 103, CInt 101]"
    by (simp add: example_row_def example_dna_def)
  have "Total_Shifts (example_row example_dna 1) = 21" "Total_Shifts (example_row example_dna 3) = 21"
    "Employee_ID (example_row example_dna 1) = CInt 103" "Employee_ID (example_row example_dna 3) = CInt 101"
    by (simp_all add: example_row_def example_dna_def)
  then have n: "\<not> ranked_by_total_then_id [example_row example_dna 1, example_row example_dna 3]"
    by (simp add: ranked_by_total_then_id_def)
  from example_generate example_options example_candidates t i n show ?thesis
    by (intro conjI)
qed



text \<open>
  Claim C9. The claim asks for a usage error when a replacement is requested for an
  employee who rests on the date. The code has no such error and relies on the select
  box, which the lookup by name defeats: in the roster with two employees named Asha, the
  name is offered on 3 March because the second works that day; the handler reads the row
  of the first, who rests (WO), raises nothing, and shows her as the best fit for her own
  replacement.
\<close>

theorem namesake_rest_state_proceeds:
  "generate_roster example_solver example_dna_namesake 2026 3 = Inr (Some example_roster_namesake, None)
   \<and> absent_options example_roster_namesake (2026, 3, 3) = Inr [CStr ''Ravi'', CStr ''Meena'', CStr ''Asha'']
   \<and> find_candidates example_roster_namesake (2026, 3, 3) (CStr ''Asha'')
       = Inr (WO, [example_row example_dna_namesake 0])
   \<and> find_replacement example_roster_namesake (2026, 3, 3) (CStr ''Asha'')
       = Inr (Best_fit (example_row example_dna_namesake 0) [example_row example_dna_namesake 0])"
  using example_generate_namesake example_options_namesake example_candidates_namesake
    example_replacement_namesake
  by (intro conjI)

end
